theory Spec2Isabelle
  imports Complex_Main "HOL-Library.Char_ord" "HOL-Library.List_Lexorder"
begin

section \<open>JavaScript values\<close>

text \<open>
  The engine works on untyped JavaScript values. The model has the plain values: the
  primitives, arrays and plain objects (an object is the list of its own enumerable
  properties). The classes \<^verbatim>\<open>ResourceNode\<close>, \<^verbatim>\<open>FP_Type\<close>, \<^verbatim>\<open>FP_Quantity\<close>,
  \<^verbatim>\<open>FP_DateTime\<close> and \<^verbatim>\<open>TypeInfo\<close> are declared in the module \<^verbatim>\<open>./types\<close>, whose
  source is not part of the sources at hand; no value of the model is an instance of
  them, and the branches of the code that test \<^verbatim>\<open>instanceof\<close> one of them are not taken.

  A \<^verbatim>\<open>number\<close> is an IEEE double: a finite double (\<open>Fin\<close>, holding its value), one
  of the two infinities, or \<^verbatim>\<open>NaN\<close>. The two zeros are one value \<open>Fin 0\<close>: they are
  equal under \<^verbatim>\<open>===\<close>, and they differ only as divisors, which the code tests for zero
  before it divides.
\<close>

datatype number = Fin real | PosInfinity | NegInfinity | NaN

text \<open>
  The result of an arithmetic operation is the double nearest to the exact result,
  \<open>toDouble\<close>: round to nearest, a tie to the even significand, and an infinity when
  the rounded magnitude reaches \<open>2\<^sup>1\<^sup>0\<^sup>2\<^sup>4\<close>. The doubles with magnitude in
  \<open>[2\<^sup>k, 2\<^sup>k\<^sup>+\<^sup>1)\<close> are the multiples of \<open>2\<^sup>k\<^sup>-\<^sup>5\<^sup>2\<close> (a significand of 53 bits), the
  exponent \<open>k\<close> being at least \<open>-1022\<close>; \<open>exponentOf\<close> finds \<open>k\<close>. A number literal and
  \<^verbatim>\<open>Number(x)\<close> of a string or of a bigint denote the double nearest to the decimal
  or integer written.
\<close>

definition exponentOf :: "real \<Rightarrow> int" where
  "exponentOf x =
     (case find (\<lambda>k. \<bar>x\<bar> < 2 powi (k + 1)) [- 1022..1023] of
        Some k \<Rightarrow> k
      | None \<Rightarrow> 1024)"

definition roundHalfEven :: "real \<Rightarrow> int" where
  "roundHalfEven r =
     (let f = \<lfloor>r\<rfloor> in
      if r - of_int f < 1 / 2 then f
      else if 1 / 2 < r - of_int f then f + 1
      else if even f then f else f + 1)"

definition toDouble :: "real \<Rightarrow> number" where
  "toDouble x =
     (let ulp = 2 powi (exponentOf x - 52);
          r = of_int (roundHalfEven (x / ulp)) * ulp
      in if 2 powi 1024 \<le> r then PosInfinity
         else if r \<le> - (2 powi 1024) then NegInfinity
         else Fin r)"

datatype jsval =
    VUndefined
  | VNull
  | VBool bool
  | VNum number
  | VBigInt int
  | VStr string
  | VArr "jsval list"
  | VObj "(string \<times> jsval) list"

text \<open>\<^verbatim>\<open>Array.isArray(x)\<close>\<close>

fun isArray :: "jsval \<Rightarrow> bool" where
  "isArray (VArr xs) = True"
| "isArray v = False"

text \<open>The conversion to boolean that \<^verbatim>\<open>!x\<close>, \<^verbatim>\<open>x || y\<close>, \<^verbatim>\<open>x && y\<close> and \<^verbatim>\<open>if (x)\<close> apply.\<close>

fun truthy :: "jsval \<Rightarrow> bool" where
  "truthy VUndefined = False"
| "truthy VNull = False"
| "truthy (VBool b) = b"
| "truthy (VNum (Fin r)) = (r \<noteq> 0)"
| "truthy (VNum NaN) = False"
| "truthy (VNum x) = True"
| "truthy (VBigInt i) = (i \<noteq> 0)"
| "truthy (VStr s) = (s \<noteq> [])"
| "truthy (VArr xs) = True"
| "truthy (VObj kvs) = True"

definition js_not :: "jsval \<Rightarrow> jsval" where
  "js_not a = VBool (\<not> truthy a)"

definition js_or :: "jsval \<Rightarrow> jsval \<Rightarrow> jsval" where
  "js_or a b = (if truthy a then a else b)"

definition js_and :: "jsval \<Rightarrow> jsval \<Rightarrow> jsval" where
  "js_and a b = (if truthy a then b else a)"

text \<open>\<^verbatim>\<open>typeof x\<close>\<close>

datatype jstype = TUndefined | TObject | TBoolean | TNumber | TBigint | TString

fun typeof :: "jsval \<Rightarrow> jstype" where
  "typeof VUndefined = TUndefined"
| "typeof VNull = TObject"
| "typeof (VBool b) = TBoolean"
| "typeof (VNum x) = TNumber"
| "typeof (VBigInt i) = TBigint"
| "typeof (VStr s) = TString"
| "typeof (VArr xs) = TObject"
| "typeof (VObj kvs) = TObject"

text \<open>
  \<^verbatim>\<open>x === y\<close>. \<^verbatim>\<open>NaN\<close> is not equal to itself. Two objects or arrays are equal
  under \<^verbatim>\<open>===\<close> when they are the same reference; the model has values and no
  references, and takes two composite operands to be distinct references, which is
  the case in which the code goes on to compare them structurally.
\<close>

fun num_strict_equals :: "number \<Rightarrow> number \<Rightarrow> bool" where
  "num_strict_equals (Fin a) (Fin b) = (a = b)"
| "num_strict_equals PosInfinity PosInfinity = True"
| "num_strict_equals NegInfinity NegInfinity = True"
| "num_strict_equals x y = False"

fun strict_equals :: "jsval \<Rightarrow> jsval \<Rightarrow> bool" where
  "strict_equals VUndefined VUndefined = True"
| "strict_equals VNull VNull = True"
| "strict_equals (VBool a) (VBool b) = (a = b)"
| "strict_equals (VNum x) (VNum y) = num_strict_equals x y"
| "strict_equals (VBigInt i) (VBigInt j) = (i = j)"
| "strict_equals (VStr s) (VStr t) = (s = t)"
| "strict_equals a b = False"

text \<open>\<^verbatim>\<open>x == y\<close> for a number and a bigint: the comparison of their mathematical values.\<close>

fun num_loose_equals_bigint :: "number \<Rightarrow> int \<Rightarrow> bool" where
  "num_loose_equals_bigint (Fin a) i = (a = of_int i)"
| "num_loose_equals_bigint x i = False"

text \<open>The decimal text of a non-negative integer (an array index as a property name).\<close>

fun natToString :: "nat \<Rightarrow> string" where
  "natToString n =
     (if n < 10 then [''0123456789'' ! n]
      else natToString (n div 10) @ [''0123456789'' ! (n mod 10)])"

declare natToString.simps [simp del]

text \<open>
  The own enumerable properties of a value, as \<^verbatim>\<open>Object.keys\<close> lists them: the
  properties of a plain object, the indices of an array, the indices of a string
  (each holding a string of one character); other primitives have none.
  \<open>getProp v k\<close> is \<^verbatim>\<open>v[k]\<close> for an own property and \<^verbatim>\<open>undefined\<close> otherwise.
\<close>

fun ownProps :: "jsval \<Rightarrow> (string \<times> jsval) list" where
  "ownProps (VObj kvs) = kvs"
| "ownProps (VArr xs) = zip (map natToString [0..<length xs]) xs"
| "ownProps (VStr s) = zip (map natToString [0..<length s]) (map (\<lambda>c. VStr [c]) s)"
| "ownProps v = []"

definition objectKeys :: "jsval \<Rightarrow> string list" where
  "objectKeys v = map fst (ownProps v)"

definition getProp :: "jsval \<Rightarrow> string \<Rightarrow> jsval" where
  "getProp v k = (case map_of (ownProps v) k of Some x \<Rightarrow> x | None \<Rightarrow> VUndefined)"

fun isComposite :: "jsval \<Rightarrow> bool" where
  "isComposite (VArr xs) = True"
| "isComposite (VObj kvs) = True"
| "isComposite v = False"

section \<open>Numbers (numbers.ts)\<close>

text \<open>The literal \<^verbatim>\<open>1e-8\<close>.\<close>

definition PRECISION_STEP :: number where
  "PRECISION_STEP = toDouble (1 / 10 ^ 8)"

text \<open>
  \<^verbatim>\<open>Math.round\<close> gives the nearest integer, a half towards \<open>+\<infinity>\<close>. Its result is exact: a
  double of magnitude \<open>2\<^sup>5\<^sup>2\<close> or more is an integer, and a smaller one has its rounded
  value among the doubles.
\<close>

fun Math_round :: "number \<Rightarrow> number" where
  "Math_round (Fin x) = Fin (of_int \<lfloor>x + 1 / 2\<rfloor>)"
| "Math_round x = x"

text \<open>
  \<^verbatim>\<open>x * y\<close> and \<^verbatim>\<open>x / y\<close>. An operation with a \<^verbatim>\<open>NaN\<close> operand gives \<^verbatim>\<open>NaN\<close>, and so do
  zero times an infinity, zero by zero and an infinity by an infinity. A finite
  divisor zero is taken to be the positive zero.
\<close>

fun negate :: "number \<Rightarrow> number" where
  "negate (Fin a) = Fin (- a)"
| "negate PosInfinity = NegInfinity"
| "negate NegInfinity = PosInfinity"
| "negate NaN = NaN"

fun num_mul :: "number \<Rightarrow> number \<Rightarrow> number" where
  "num_mul (Fin a) (Fin b) = toDouble (a * b)"
| "num_mul NaN y = NaN"
| "num_mul x NaN = NaN"
| "num_mul (Fin a) y = (if a = 0 then NaN else if 0 < a then y else negate y)"
| "num_mul x (Fin b) = (if b = 0 then NaN else if 0 < b then x else negate x)"
| "num_mul PosInfinity y = y"
| "num_mul NegInfinity y = negate y"

fun num_div :: "number \<Rightarrow> number \<Rightarrow> number" where
  "num_div (Fin a) (Fin b) =
     (if b \<noteq> 0 then toDouble (a / b)
      else if a = 0 then NaN else if 0 < a then PosInfinity else NegInfinity)"
| "num_div NaN y = NaN"
| "num_div x NaN = NaN"
| "num_div (Fin a) y = Fin 0"
| "num_div x (Fin b) = (if 0 \<le> b then x else negate x)"
| "num_div x y = NaN"

definition roundToMaxPrecision :: "number \<Rightarrow> number" where
  "roundToMaxPrecision x = num_mul (Math_round (num_div x PRECISION_STEP)) PRECISION_STEP"

definition isEqual :: "number \<Rightarrow> number \<Rightarrow> bool" where
  "isEqual actual expected =
     num_strict_equals (roundToMaxPrecision actual) (roundToMaxPrecision expected)"

text \<open>
  The rounding in the words of the specification, in exact arithmetic: the multiple
  of the precision step \<open>10\<^sup>-\<^sup>8\<close> nearest to \<open>x\<close>.
\<close>

definition spec_nearestMultiple :: "real \<Rightarrow> real" where
  "spec_nearestMultiple x = of_int \<lfloor>x * 10 ^ 8 + 1 / 2\<rfloor> / 10 ^ 8"

text \<open>
  The numbers that the literals \<^verbatim>\<open>100000000.00000001\<close> and \<^verbatim>\<open>100000000.00000003\<close>
  denote, and the numbers \<^verbatim>\<open>0.30000000000000004\<close> (the sum \<^verbatim>\<open>0.1 + 0.1 + 0.1\<close>) and
  \<^verbatim>\<open>0.3\<close>.
\<close>

definition lowerDecimal :: number where
  "lowerDecimal = toDouble (10000000000000001 / 10 ^ 8)"

definition upperDecimal :: number where
  "upperDecimal = toDouble (10000000000000003 / 10 ^ 8)"

definition threeTenthsSum :: number where
  "threeTenthsSum = toDouble (30000000000000004 / 10 ^ 17)"

definition threeTenths :: number where
  "threeTenths = toDouble (3 / 10)"

section \<open>Deep equality (deep-equal.ts)\<close>

text \<open>
  \<open>deepEqual\<close> is \<^verbatim>\<open>deepEqual(v1, v2)\<close> without options, the comparison of the
  operator \<open>=\<close> (\<^verbatim>\<open>opts.fuzzy\<close> is undefined). On the values of the model neither
  argument is a \<^verbatim>\<open>ResourceNode\<close>, a \<^verbatim>\<open>Date\<close> or an \<^verbatim>\<open>FP_Type\<close>, so \<open>actual\<close> and
  \<open>expected\<close> are the arguments, and the result is a boolean.

  \<open>numberEquality\<close> is the block for \<^verbatim>\<open>typeof actual\<close> being \<^verbatim>\<open>number\<close> or
  \<^verbatim>\<open>bigint\<close>: it gives the returned value where that block returns, and \<open>None\<close>
  where control falls through it.
\<close>

fun numberEquality :: "jsval \<Rightarrow> jsval \<Rightarrow> bool option" where
  "numberEquality (VNum x) (VBigInt j) = Some (num_loose_equals_bigint x j)"
| "numberEquality (VNum x) (VNum y) = Some (isEqual x y)"
| "numberEquality (VBigInt i) (VNum y) = Some (num_loose_equals_bigint y i)"
| "numberEquality a b = None"

definition isUndefinedOrNull :: "jsval \<Rightarrow> bool" where
  "isUndefinedOrNull v = (v = VNull \<or> v = VUndefined)"

lemma getProp_size:
  assumes "k \<in> set (objectKeys a)"
  shows "(isComposite a \<longrightarrow> size (getProp a k) < size a) \<and>
         (\<not> isComposite a \<longrightarrow> \<not> isComposite (getProp a k) \<and> size (getProp a k) = 0)"
proof -
  from assms obtain v where v: "map_of (ownProps a) k = Some v"
    unfolding objectKeys_def by (metis map_of_eq_None_iff not_Some_eq set_map)
  hence mem: "(k, v) \<in> set (ownProps a)" by (rule map_of_SomeD)
  have g: "getProp a k = v" by (simp add: getProp_def v)
  show ?thesis
  proof (cases a)
    case (VArr xs)
    with mem have "v \<in> set xs" by (auto dest: set_zip_rightD)
    hence "size v < Suc (size_list size xs)"
      by (simp add: less_Suc_eq_le size_list_estimation')
    thus ?thesis using VArr g by simp
  next
    case (VObj kvs)
    with mem have "(k, v) \<in> set kvs" by simp
    hence "size_prod (\<lambda>_. 0) size (k, v) \<le> size_list (size_prod (\<lambda>_. 0) size) kvs"
      by (simp add: size_list_estimation')
    thus ?thesis using VObj g by simp
  next
    case (VStr s)
    with mem have "v \<in> set (map (\<lambda>c. VStr [c]) s)" by (auto dest: set_zip_rightD)
    thus ?thesis using VStr g by auto
  qed (use mem in auto)
qed

lemma elem_measure:
  assumes "k \<in> set (objectKeys a)" and "k \<in> set (objectKeys b)"
  shows "(if isComposite (getProp a k) \<or> isComposite (getProp b k)
          then 2 * (size (getProp a k) + size (getProp b k)) + 2 else 0)
         < 2 * (size a + size b) + 1"
  using getProp_size [OF assms(1)] getProp_size [OF assms(2)]
  by (cases "isComposite a"; cases "isComposite b"; auto)

lemma composite_if:
  "truthy a \<Longrightarrow> truthy b \<Longrightarrow> typeof a = TObject \<or> typeof b = TObject \<Longrightarrow>
   isComposite a \<or> isComposite b"
  by (cases a; cases b; simp)

text \<open>
  In \<open>objEquiv\<close>, \<^verbatim>\<open>isArguments\<close> is false for every value of the model, and no
  statement of the \<^verbatim>\<open>try\<close> block throws. The two sorted key lists are compared in
  length and then index by index; the values are compared from the last key to the
  first.
\<close>

function deepEqual :: "jsval \<Rightarrow> jsval \<Rightarrow> bool"
  and objEquiv :: "jsval \<Rightarrow> jsval \<Rightarrow> bool" where
  "deepEqual actual expected =
     (if strict_equals actual expected then True
      else case numberEquality actual expected of
          Some r \<Rightarrow> r
        | None \<Rightarrow>
          if \<not> truthy actual \<or> \<not> truthy expected \<or>
             (typeof actual \<noteq> TObject \<and> typeof expected \<noteq> TObject)
          then strict_equals actual expected
          else objEquiv actual expected)"
| "objEquiv a b =
     (if isUndefinedOrNull a \<or> isUndefinedOrNull b then False
      else if \<not> strict_equals (getProp a ''prototype'') (getProp b ''prototype'') then False
      else let ka = sort (objectKeys a); kb = sort (objectKeys b) in
        if length ka \<noteq> length kb then False
        else if ka \<noteq> kb then False
        else if length ka = 1 then deepEqual (getProp a (ka ! 0)) (getProp b (ka ! 0))
        else if list_ex (\<lambda>key. \<not> deepEqual (getProp a key) (getProp b key)) (rev ka) then False
        else typeof a = typeof b)"
  by pat_completeness auto

termination
proof (relation "measure (\<lambda>x. case x of
           Inl (a, b) \<Rightarrow> (if isComposite a \<or> isComposite b then 2 * (size a + size b) + 2 else 0)
         | Inr (a, b) \<Rightarrow> 2 * (size a + size b) + 1)", goal_cases)
  case 1
  show ?case by simp
next
  case (2 actual expected)
  then have "isComposite actual \<or> isComposite expected"
    using composite_if [of actual expected] by auto
  then show ?case by auto
next
  case (3 a b ka kb)
  then have "0 < length ka" by simp
  then have "ka ! 0 \<in> set ka" by (rule nth_mem)
  then have "ka ! 0 \<in> set (objectKeys a)" "ka ! 0 \<in> set (objectKeys b)"
    using 3 by (metis set_sort)+
  then show ?case using elem_measure by simp
next
  case (4 a b ka kb key)
  then have "key \<in> set (objectKeys a)" "key \<in> set (objectKeys b)"
    by (metis set_rev set_sort)+
  then show ?case using elem_measure by simp
qed

declare deepEqual.simps [simp del] objEquiv.simps [simp del]

text \<open>
  The operator \<open>~\<close> calls \<^verbatim>\<open>deepEqual(v1, v2, {fuzzy: true})\<close>. Of that mode the
  comparison of two strings is modelled: the test \<^verbatim>\<open>actual === expected\<close>, which
  returns \<^verbatim>\<open>opts.fuzzy || ...\<close>, that is true, and then the branch for two strings.

  A string is a list of characters; the model reads them as ASCII. \<open>toUpperCase\<close>
  maps the letters \<open>a\<close> to \<open>z\<close>; \<open>isWhiteSpace\<close> is the class \<^verbatim>\<open>\s\<close> within ASCII:
  tab, line feed, vertical tab, form feed, carriage return and space.
  \<^verbatim>\<open>x.replace(/\s+/, ' ')\<close> has no \<^verbatim>\<open>g\<close> flag: it replaces the first match, the
  longest run of white space that starts at the first white-space character.
\<close>

definition toUpperCaseChar :: "char \<Rightarrow> char" where
  "toUpperCaseChar c =
     (case map_of (zip ''abcdefghijklmnopqrstuvwxyz'' ''ABCDEFGHIJKLMNOPQRSTUVWXYZ'') c of
        Some u \<Rightarrow> u
      | None \<Rightarrow> c)"

definition toUpperCase :: "string \<Rightarrow> string" where
  "toUpperCase s = map toUpperCaseChar s"

definition isWhiteSpace :: "char \<Rightarrow> bool" where
  "isWhiteSpace c = (c \<in> set [CHR 0x09, CHR 0x0A, CHR 0x0B, CHR 0x0C, CHR 0x0D, CHR '' ''])"

fun replaceFirstWhiteSpaceRun :: "string \<Rightarrow> string" where
  "replaceFirstWhiteSpaceRun [] = []"
| "replaceFirstWhiteSpaceRun (c # cs) =
     (if isWhiteSpace c then CHR '' '' # dropWhile isWhiteSpace cs
      else c # replaceFirstWhiteSpaceRun cs)"

definition normalizeStr :: "string \<Rightarrow> string" where
  "normalizeStr x = replaceFirstWhiteSpaceRun (toUpperCase x)"

definition deepEqualFuzzy :: "string \<Rightarrow> string \<Rightarrow> bool" where
  "deepEqualFuzzy actual expected =
     (if actual = expected then True
      else normalizeStr actual = normalizeStr expected)"

text \<open>
  The normalisation in the words of the specification: upper case, and every run of
  white space collapsed to one space. It is not part of the code; the code's
  \<open>normalizeStr\<close> is compared with it.
\<close>

function collapseWhiteSpace :: "string \<Rightarrow> string" where
  "collapseWhiteSpace [] = []"
| "collapseWhiteSpace (c # cs) =
     (if isWhiteSpace c then CHR '' '' # collapseWhiteSpace (dropWhile isWhiteSpace cs)
      else c # collapseWhiteSpace cs)"
  by pat_completeness auto

termination
  by (relation "measure length") (auto simp: less_Suc_eq_le length_dropWhile_le)

definition spec_normalizeStr :: "string \<Rightarrow> string" where
  "spec_normalizeStr x = collapseWhiteSpace (toUpperCase x)"

section \<open>Equality operators (equality.ts)\<close>

text \<open>\<^verbatim>\<open>util.isEmpty\<close> (utilities)\<close>

definition isEmpty :: "jsval \<Rightarrow> bool" where
  "isEmpty x = (case x of VArr xs \<Rightarrow> xs = [] | _ \<Rightarrow> False)"

definition equality :: "jsval \<Rightarrow> jsval \<Rightarrow> jsval" where
  "equality x y = (if isEmpty x \<or> isEmpty y then VArr [] else VBool (deepEqual x y))"

definition equal :: "jsval \<Rightarrow> jsval \<Rightarrow> jsval" where
  "equal a b = equality a b"

definition unequal :: "jsval \<Rightarrow> jsval \<Rightarrow> jsval" where
  "unequal a b = (let eq = equality a b in if eq = VUndefined then VUndefined else js_not eq)"

section \<open>Utilities and thrown values\<close>

text \<open>
  A \<^verbatim>\<open>throw\<close> is a result of its own: \<open>RangeError\<close> is what the division of a
  bigint by \<^verbatim>\<open>0n\<close> throws, \<open>Error\<close> stands for what \<^verbatim>\<open>new Error(...)\<close> and
  \<^verbatim>\<open>util.raiseError\<close> throw, with the fixed part of the message.

  \<^verbatim>\<open>util.valData\<close> and \<^verbatim>\<open>util.valDataConverted\<close> unwrap a \<^verbatim>\<open>ResourceNode\<close> and return
  any other value as it is; the values of the model are not resource nodes.
\<close>

datatype exn = RangeError | Error string

definition valData :: "jsval \<Rightarrow> jsval" where
  "valData val = val"

definition valDataConverted :: "jsval \<Rightarrow> jsval" where
  "valDataConverted val = val"

text \<open>\<^verbatim>\<open>x == null\<close> holds for \<^verbatim>\<open>null\<close> and \<^verbatim>\<open>undefined\<close>.\<close>

definition looseNull :: "jsval \<Rightarrow> bool" where
  "looseNull x = (x = VNull \<or> x = VUndefined)"

section \<open>Division (math.ts)\<close>

text \<open>
  \<open>num_mod\<close> is \<^verbatim>\<open>x % y\<close>: the remainder has the sign of the dividend and is exact; it
  is \<^verbatim>\<open>NaN\<close> for a \<^verbatim>\<open>NaN\<close> operand, an infinite dividend or a zero divisor, and the
  dividend for an infinite divisor. \<^verbatim>\<open>Math.floor\<close> is exact. On bigints \<^verbatim>\<open>x / y\<close>
  truncates towards zero and \<^verbatim>\<open>x % y\<close> is the remainder of that division; both throw a
  \<^verbatim>\<open>RangeError\<close> for the divisor \<^verbatim>\<open>0n\<close>. \<^verbatim>\<open>Number(x)\<close> of a bigint is the double nearest
  to it.
\<close>

definition Number_of_bigint :: "int \<Rightarrow> number" where
  "Number_of_bigint i = toDouble (of_int i)"

definition truncate_real :: "real \<Rightarrow> int" where
  "truncate_real r = (if 0 \<le> r then \<lfloor>r\<rfloor> else \<lceil>r\<rceil>)"

fun num_mod :: "number \<Rightarrow> number \<Rightarrow> number" where
  "num_mod (Fin a) (Fin b) =
     (if b = 0 then NaN else Fin (a - b * of_int (truncate_real (a / b))))"
| "num_mod (Fin a) PosInfinity = Fin a"
| "num_mod (Fin a) NegInfinity = Fin a"
| "num_mod x y = NaN"

fun Math_floor :: "number \<Rightarrow> number" where
  "Math_floor (Fin x) = Fin (of_int \<lfloor>x\<rfloor>)"
| "Math_floor x = x"

definition bigint_quot :: "int \<Rightarrow> int \<Rightarrow> int" where
  "bigint_quot i j = sgn i * sgn j * (\<bar>i\<bar> div \<bar>j\<bar>)"

definition bigint_div :: "int \<Rightarrow> int \<Rightarrow> exn + jsval" where
  "bigint_div i j = (if j = 0 then Inl RangeError else Inr (VBigInt (bigint_quot i j)))"

definition bigint_rem :: "int \<Rightarrow> int \<Rightarrow> exn + jsval" where
  "bigint_rem i j =
     (if j = 0 then Inl RangeError else Inr (VBigInt (i - j * bigint_quot i j)))"

text \<open>
  \<open>div\<close> receives the two collections. \<open>divOperands\<close> is the chain of tests on
  \<^verbatim>\<open>typeof x\<close> and \<^verbatim>\<open>typeof y\<close>; it is \<open>None\<close> where no branch returns, and the
  function then throws. The branches for \<^verbatim>\<open>FP_Quantity\<close> and \<^verbatim>\<open>FP_Type\<close> operands are
  not taken by the values of the model.
\<close>

fun divOperands :: "jsval \<Rightarrow> jsval \<Rightarrow> jsval option" where
  "divOperands (VBigInt x) (VBigInt y) =
     Some (if y = 0 then VArr [] else VNum (num_div (Number_of_bigint x) (Number_of_bigint y)))"
| "divOperands (VBigInt x) (VNum y) =
     Some (if num_strict_equals y (Fin 0) then VArr []
           else VNum (num_div (Number_of_bigint x) y))"
| "divOperands (VNum x) (VNum y) =
     Some (if num_strict_equals y (Fin 0) then VArr [] else VNum (num_div x y))"
| "divOperands (VNum x) (VBigInt y) =
     Some (if y = 0 then VArr [] else VNum (num_div x (Number_of_bigint y)))"
| "divOperands x y = None"

definition div_op :: "jsval list \<Rightarrow> jsval list \<Rightarrow> exn + jsval" where
  "div_op xs ys =
     (if length xs = 1 \<and> length ys = 1 then
        (let x = valDataConverted (xs ! 0); y = valDataConverted (ys ! 0) in
         if looseNull x \<or> looseNull y then Inr (VArr [])
         else case divOperands x y of
             Some r \<Rightarrow> Inr r
           | None \<Rightarrow> Inl (Error ''Cannot /''))
      else Inl (Error ''Cannot /''))"

text \<open>\<open>intdiv\<close> and \<open>mod\<close> receive the two operands themselves.\<close>

fun intdivOperands :: "jsval \<Rightarrow> jsval \<Rightarrow> exn + jsval" where
  "intdivOperands (VBigInt x) (VBigInt y) = bigint_div x y"
| "intdivOperands (VBigInt x) (VNum y) =
     Inr (VNum (Math_floor (num_div (Number_of_bigint x) y)))"
| "intdivOperands (VNum x) (VNum y) = Inr (VNum (Math_floor (num_div x y)))"
| "intdivOperands (VNum x) (VBigInt y) =
     Inr (VNum (Math_floor (num_div x (Number_of_bigint y))))"
| "intdivOperands x y = Inr (VArr [])"

definition intdiv :: "jsval \<Rightarrow> jsval \<Rightarrow> exn + jsval" where
  "intdiv x y =
     (if strict_equals y (VNum (Fin 0)) \<or> strict_equals y (VBigInt 0) then Inr (VArr [])
      else intdivOperands x y)"

fun modOperands :: "jsval \<Rightarrow> jsval \<Rightarrow> exn + jsval" where
  "modOperands (VBigInt x) (VBigInt y) = bigint_rem x y"
| "modOperands (VBigInt x) (VNum y) = Inr (VNum (num_mod (Number_of_bigint x) y))"
| "modOperands (VNum x) (VNum y) = Inr (VNum (num_mod x y))"
| "modOperands (VNum x) (VBigInt y) = Inr (VNum (num_mod x (Number_of_bigint y)))"
| "modOperands x y = Inr (VArr [])"

definition mod_op :: "jsval \<Rightarrow> jsval \<Rightarrow> exn + jsval" where
  "mod_op x y =
     (if strict_equals y (VNum (Fin 0)) then Inr (VArr [])
      else modOperands x y)"

section \<open>Conversions and iif (misc.ts)\<close>

text \<open>\<^verbatim>\<open>checkSingleton\<close>: \<^verbatim>\<open>util.raiseError\<close> throws the function name and the message.\<close>

definition checkSingleton :: "jsval list \<Rightarrow> string \<Rightarrow> exn + bool" where
  "checkSingleton coll fnName =
     (if length coll > 1
      then Inl (Error (fnName @ '': The input collection contains multiple items''))
      else Inr (length coll = 1))"

definition toLowerCaseChar :: "char \<Rightarrow> char" where
  "toLowerCaseChar c =
     (case map_of (zip ''ABCDEFGHIJKLMNOPQRSTUVWXYZ'' ''abcdefghijklmnopqrstuvwxyz'') c of
        Some l \<Rightarrow> l
      | None \<Rightarrow> c)"

definition toLowerCase :: "string \<Rightarrow> string" where
  "toLowerCase s = map toLowerCaseChar s"

text \<open>
  \<^verbatim>\<open>trueStrings\<close> and \<^verbatim>\<open>falseStrings\<close> are built by \<^verbatim>\<open>reduce\<close> from the object literal
  \<^verbatim>\<open>{}\<close>, each listed string becoming an own property with the value \<^verbatim>\<open>true\<close>. Such
  an object has the prototype \<^verbatim>\<open>Object.prototype\<close>, so \<^verbatim>\<open>obj[k]\<close> for a \<open>k\<close> that is not
  an own property reads the property of that name inherited from it, when there is
  one. \<open>objectPrototypeKeys\<close> lists the properties of \<^verbatim>\<open>Object.prototype\<close>; each holds
  a function, and \<^verbatim>\<open>__proto__\<close> yields the prototype object, so each is truthy.
  \<open>propertyIsTruthy obj k\<close> is the test \<^verbatim>\<open>if (obj[k])\<close>.
\<close>

definition objectPrototypeKeys :: "string list" where
  "objectPrototypeKeys =
     [''constructor'', ''__defineGetter__'', ''__defineSetter__'', ''hasOwnProperty'',
      ''__lookupGetter__'', ''__lookupSetter__'', ''isPrototypeOf'',
      ''propertyIsEnumerable'', ''toString'', ''valueOf'', ''__proto__'',
      ''toLocaleString'']"

definition propertyIsTruthy :: "jsval \<Rightarrow> string \<Rightarrow> bool" where
  "propertyIsTruthy obj k =
     (if k \<in> set (objectKeys obj) then truthy (getProp obj k)
      else k \<in> set objectPrototypeKeys)"

definition trueStrings :: jsval where
  "trueStrings =
     VObj (map (\<lambda>val. (val, VBool True)) [''true'', ''t'', ''yes'', ''y'', ''1'', ''1.0''])"

definition falseStrings :: jsval where
  "falseStrings =
     VObj (map (\<lambda>val. (val, VBool True)) [''false'', ''f'', ''no'', ''n'', ''0'', ''0.0''])"

text \<open>
  \<open>toBooleanValue\<close> is the \<^verbatim>\<open>switch (typeof v)\<close>; \<^verbatim>\<open>rtn\<close> stays \<^verbatim>\<open>undefined\<close> where no
  case assigns it, and the caller turns an \<^verbatim>\<open>undefined\<close> result into the empty
  collection.
\<close>

fun toBooleanValue :: "jsval \<Rightarrow> jsval" where
  "toBooleanValue (VBool v) = VBool v"
| "toBooleanValue (VBigInt v) =
     (if v = 1 then VBool True else if v = 0 then VBool False else VUndefined)"
| "toBooleanValue (VNum v) =
     (if num_strict_equals v (Fin 1) then VBool True
      else if num_strict_equals v (Fin 0) then VBool False
      else VUndefined)"
| "toBooleanValue (VStr v) =
     (let lowerCaseValue = toLowerCase v in
      if propertyIsTruthy trueStrings lowerCaseValue then VBool True
      else if propertyIsTruthy falseStrings lowerCaseValue then VBool False
      else VUndefined)"
| "toBooleanValue v = VUndefined"

definition toBoolean :: "jsval list \<Rightarrow> exn + jsval" where
  "toBoolean coll =
     (case checkSingleton coll ''toBoolean'' of
        Inl e \<Rightarrow> Inl e
      | Inr single \<Rightarrow>
          if single then Inr (toBooleanValue (valData (coll ! 0))) else Inr VUndefined)"

text \<open>
  \<^verbatim>\<open>util.isTrue\<close>. \<open>lengthOf x\<close> is \<^verbatim>\<open>x.length\<close>: the length of an array or a string,
  the own property of that name of an object, and \<^verbatim>\<open>undefined\<close> otherwise.
\<close>

fun lengthOf :: "jsval \<Rightarrow> jsval" where
  "lengthOf (VArr xs) = VNum (Fin (real (length xs)))"
| "lengthOf (VStr s) = VNum (Fin (real (length s)))"
| "lengthOf (VObj kvs) = getProp (VObj kvs) ''length''"
| "lengthOf v = VUndefined"

definition isTrue :: "jsval \<Rightarrow> bool" where
  "isTrue x =
     (x \<noteq> VNull \<and> x \<noteq> VUndefined \<and>
      (x = VBool True \<or>
       (strict_equals (lengthOf x) (VNum (Fin 1)) \<and>
        strict_equals (valData (getProp x ''0'')) (VBool True))))"

text \<open>
  A closure of the evaluator (a compiled sub-expression) is run on a value. It may
  read and change the evaluation context, here a state of any type \<open>'w\<close>, and it
  returns a value, throws, or returns a promise; a promise is modelled by what it
  settles to, a rejection (\<open>Inl\<close>) or a value (\<open>Inr\<close>).

  In \<open>iifMacro\<close>, \<^verbatim>\<open>condition.then(c => iifMacroSync(data, c, ok, fail))\<close> is a promise
  that settles to what the callback returns or throws (\<open>settle\<close>); the callback is
  not run when the condition is rejected. The state on which the callback runs is
  taken to be the one the condition left.
\<close>

datatype completion = Return jsval | Throw exn | Promise "exn + jsval"

type_synonym 'w closure = "jsval \<Rightarrow> 'w \<Rightarrow> completion \<times> 'w"

fun settle :: "completion \<Rightarrow> completion" where
  "settle (Return v) = Promise (Inr v)"
| "settle (Throw e) = Promise (Inl e)"
| "settle (Promise p) = Promise p"

definition iifMacroSync ::
  "jsval \<Rightarrow> jsval \<Rightarrow> 'w closure \<Rightarrow> 'w closure option \<Rightarrow> 'w \<Rightarrow> completion \<times> 'w" where
  "iifMacroSync data condition ok fail w =
     (if isTrue condition then ok data w
      else case fail of
          Some f \<Rightarrow> f data w
        | None \<Rightarrow> (Return (VArr []), w))"

definition iifMacro ::
  "jsval \<Rightarrow> 'w closure \<Rightarrow> 'w closure \<Rightarrow> 'w closure option \<Rightarrow> 'w \<Rightarrow> completion \<times> 'w" where
  "iifMacro data cond ok fail w =
     (case cond data w of
        (Return condition, w1) \<Rightarrow> iifMacroSync data condition ok fail w1
      | (Throw e, w1) \<Rightarrow> (Throw e, w1)
      | (Promise (Inl e), w1) \<Rightarrow> (Promise (Inl e), w1)
      | (Promise (Inr c), w1) \<Rightarrow>
          (case iifMacroSync data c ok fail w1 of (r, w2) \<Rightarrow> (settle r, w2)))"

subsection \<open>toQuantity\<close>

text \<open>
  An instance of \<^verbatim>\<open>FP_Quantity\<close> is a value and a unit. The result of \<open>toQuantity\<close>
  is such an instance, \<^verbatim>\<open>undefined\<close> or \<^verbatim>\<open>null\<close>.

  The static members of \<^verbatim>\<open>FP_Quantity\<close> that \<open>toQuantity\<close> uses are declared in
  \<^verbatim>\<open>./types\<close>, which is not among the sources at hand. They are parameters of the
  model: the two tables as partial functions from the property name (a table holds
  numbers, respectively strings), and \<^verbatim>\<open>convUnitTo\<close> as a function that gives a
  quantity or \<^verbatim>\<open>null\<close> (\<open>None\<close>).

  \<open>toQuantity\<close> reads \<^verbatim>\<open>this.unit\<close>. Every function of the engine is called with the
  evaluation context as \<^verbatim>\<open>this\<close> (\<^verbatim>\<open>this.customTraceFn\<close>, \<^verbatim>\<open>this.definedVars\<close>,
  \<^verbatim>\<open>this.vars\<close> in the same file); the declared context (\<^verbatim>\<open>EngineContext\<close>,
  \<^verbatim>\<open>FHIRPathContext\<close>) has no property \<^verbatim>\<open>unit\<close>. The model keeps the property as
  an optional field, \<open>None\<close> being \<^verbatim>\<open>undefined\<close>; \<^verbatim>\<open>table[undefined]\<close> reads the
  property named \<open>undefined\<close>.
\<close>

datatype quantity = FP_Quantity (qvalue: number) (qunit: string)

datatype qresult = QUndefined | QNull | QDefined quantity

record quantity_statics =
  calendarDuration2Seconds :: "string \<Rightarrow> real option"
  mapTimeUnitsToUCUMCode :: "string \<Rightarrow> string option"
  convUnitTo :: "string \<Rightarrow> number \<Rightarrow> string \<Rightarrow> quantity option"

record engine_context =
  this_unit :: "string option"

definition propertyKey :: "string option \<Rightarrow> string" where
  "propertyKey k = (case k of None \<Rightarrow> ''undefined'' | Some name \<Rightarrow> name)"

text \<open>\<^verbatim>\<open>!x\<close> and \<^verbatim>\<open>x > 1\<close> for what a table of numbers yields, \<^verbatim>\<open>!x\<close> for a table of strings.\<close>

definition notNumber :: "real option \<Rightarrow> bool" where
  "notNumber x = (case x of None \<Rightarrow> True | Some r \<Rightarrow> r = 0)"

definition greaterThanOne :: "real option \<Rightarrow> bool" where
  "greaterThanOne x = (case x of None \<Rightarrow> False | Some r \<Rightarrow> 1 < r)"

definition notString :: "string option \<Rightarrow> bool" where
  "notString x = (case x of None \<Rightarrow> True | Some t \<Rightarrow> t = [])"

definition quoted :: "string \<Rightarrow> string" where
  "quoted u = CHR 0x27 # u @ [CHR 0x27]"

text \<open>
  \<^verbatim>\<open>quantityRegex.exec(v)\<close> for
  \<^verbatim>\<open>/^((\+|-)?\d+(\.\d+)?)\s*(('[^']+')|([a-zA-Z]+))?$/\<close>: an optional sign, digits, an
  optional fraction, white space, and then nothing, a unit in single quotes (group
  5) or a word of letters (group 6). The result holds \<^verbatim>\<open>Number(value)\<close> of group 1
  and the groups 5 and 6.
\<close>

definition isDigit :: "char \<Rightarrow> bool" where
  "isDigit c = (c \<in> set ''0123456789'')"

definition isLetter :: "char \<Rightarrow> bool" where
  "isLetter c =
     (c \<in> set ''abcdefghijklmnopqrstuvwxyzABCDEFGHIJKLMNOPQRSTUVWXYZ'')"

definition digitValue :: "char \<Rightarrow> nat" where
  "digitValue c =
     (case map_of (zip ''0123456789'' [0, 1, 2, 3, 4, 5, 6, 7, 8, 9]) c of
        Some d \<Rightarrow> d
      | None \<Rightarrow> 0)"

definition digitsValue :: "string \<Rightarrow> nat" where
  "digitsValue ds = foldl (\<lambda>n c. 10 * n + digitValue c) 0 ds"

definition decimalValue :: "bool \<Rightarrow> string \<Rightarrow> string \<Rightarrow> number" where
  "decimalValue negative ds fs =
     (let magnitude = real (digitsValue ds) + real (digitsValue fs) / 10 ^ length fs
      in toDouble (if negative then - magnitude else magnitude))"

definition quantityRegexExec :: "string \<Rightarrow> (number \<times> string option \<times> string option) option" where
  "quantityRegexExec v =
     (let negative = (case v of c # r \<Rightarrow> c = CHR ''-'' | [] \<Rightarrow> False);
          r1 = (case v of c # r \<Rightarrow> if c = CHR ''+'' \<or> c = CHR ''-'' then r else v | [] \<Rightarrow> v);
          ds = takeWhile isDigit r1;
          r2 = dropWhile isDigit r1;
          fs = (case r2 of c # r \<Rightarrow> if c = CHR ''.'' then takeWhile isDigit r else [] | [] \<Rightarrow> []);
          r3 = (if fs = [] then r2 else dropWhile isDigit (tl r2));
          r4 = dropWhile isWhiteSpace r3;
          body = takeWhile (\<lambda>c. c \<noteq> CHR 0x27) (tl r4);
          rest = dropWhile (\<lambda>c. c \<noteq> CHR 0x27) (tl r4)
      in if ds = [] then None
         else if r4 = [] then Some (decimalValue negative ds fs, None, None)
         else if hd r4 = CHR 0x27 then
           (if body \<noteq> [] \<and> rest = [CHR 0x27]
            then Some (decimalValue negative ds fs, Some r4, None) else None)
         else if takeWhile isLetter r4 \<noteq> [] \<and> dropWhile isLetter r4 = []
           then Some (decimalValue negative ds fs, None, Some r4)
         else None)"

text \<open>
  \<open>toQuantityValue\<close> is the chain of tests on the type of \<open>v\<close> that assigns
  \<^verbatim>\<open>result\<close>; \<open>None\<close> is \<^verbatim>\<open>undefined\<close>. (No value of the model is an instance of
  \<^verbatim>\<open>FP_Quantity\<close>.)
\<close>

fun toQuantityValue :: "quantity_statics \<Rightarrow> jsval \<Rightarrow> quantity option" where
  "toQuantityValue S (VNum v) = Some (FP_Quantity v (quoted ''1''))"
| "toQuantityValue S (VBool v) = Some (FP_Quantity (Fin (if v then 1 else 0)) (quoted ''1''))"
| "toQuantityValue S (VStr v) =
     (case quantityRegexExec v of
        None \<Rightarrow> None
      | Some (val, unit, time) \<Rightarrow>
          (case time of
             None \<Rightarrow>
               Some (FP_Quantity val (case unit of Some u \<Rightarrow> u | None \<Rightarrow> quoted ''1''))
           | Some t \<Rightarrow>
               if notString (mapTimeUnitsToUCUMCode S t) then None
               else Some (FP_Quantity val (case unit of Some u \<Rightarrow> u | None \<Rightarrow> t))))"
| "toQuantityValue S v = None"

definition toQuantity ::
  "quantity_statics \<Rightarrow> engine_context \<Rightarrow> jsval list \<Rightarrow> string option \<Rightarrow> exn + qresult" where
  "toQuantity S this coll toUnit =
     (case checkSingleton coll ''toQuantity'' of
        Inl e \<Rightarrow> Inl e
      | Inr single \<Rightarrow>
          if single then
            (case (if toUnit = Some [] then None else toUnit) of
               None \<Rightarrow>
                 (case toQuantityValue S (valDataConverted (coll ! 0)) of
                    None \<Rightarrow> Inr QUndefined
                  | Some result \<Rightarrow> Inr (QDefined result))
             | Some u \<Rightarrow>
                 (let thisUnitInSeconds =
                        calendarDuration2Seconds S (propertyKey (this_unit this));
                      toUnitInSeconds = calendarDuration2Seconds S u
                  in if notNumber thisUnitInSeconds \<noteq> notNumber toUnitInSeconds \<and>
                        (greaterThanOne thisUnitInSeconds \<or> greaterThanOne toUnitInSeconds)
                     then Inr QNull
                     else
                       (let toUnit' =
                              (if notString (mapTimeUnitsToUCUMCode S u) then quoted u else u)
                        in case toQuantityValue S (valDataConverted (coll ! 0)) of
                             None \<Rightarrow> Inr QUndefined
                           | Some result \<Rightarrow>
                               if qunit result \<noteq> toUnit' then
                                 (case convUnitTo S (qunit result) (qvalue result) toUnit' of
                                    None \<Rightarrow> Inr QNull
                                  | Some converted \<Rightarrow> Inr (QDefined converted))
                               else Inr (QDefined result))))
          else Inr QUndefined)"

text \<open>
  Modelled from the spec: the table \<^verbatim>\<open>FP_Quantity._calendarDuration2Seconds\<close>, the
  table \<^verbatim>\<open>FP_Quantity.mapTimeUnitsToUCUMCode\<close> and \<^verbatim>\<open>FP_Quantity.convUnitTo\<close> are
  missing from the sources. The specification names the calendar durations year,
  month, week, day, hour, minute, second and millisecond; their lengths in seconds
  are those of a year of 365 days and a month of 30 days, and their UCUM codes the
  usual ones. Of the conversions the specification gives one, \<open>1 year = 12 month\<close>,
  and \<open>convUnitTo_year_month\<close> has that one only.
\<close>

definition calendarDurations :: "(string \<times> real \<times> string) list" where
  "calendarDurations =
     [(''year'', 365 * 24 * 60 * 60, quoted ''a''),
      (''month'', 30 * 24 * 60 * 60, quoted ''mo''),
      (''week'', 7 * 24 * 60 * 60, quoted ''wk''),
      (''day'', 24 * 60 * 60, quoted ''d''),
      (''hour'', 60 * 60, quoted ''h''),
      (''minute'', 60, quoted ''min''),
      (''second'', 1, quoted ''s''),
      (''millisecond'', 1 / 1000, quoted ''ms'')]"

definition convUnitTo_year_month :: "string \<Rightarrow> number \<Rightarrow> string \<Rightarrow> quantity option" where
  "convUnitTo_year_month fromUnit v toUnit =
     (if fromUnit = ''year'' \<and> toUnit = ''month''
      then Some (FP_Quantity (num_mul (Fin 12) v) ''month'')
      else None)"

definition spec_statics :: quantity_statics where
  "spec_statics =
     \<lparr> calendarDuration2Seconds = map_of (map (\<lambda>(name, secs, code). (name, secs)) calendarDurations),
       mapTimeUnitsToUCUMCode = map_of (map (\<lambda>(name, secs, code). (name, code)) calendarDurations),
       convUnitTo = convUnitTo_year_month \<rparr>"

section \<open>Hash of an object (hash-object.ts)\<close>

text \<open>
  \<open>prepareObject\<close> brings a value to the unified form: a bigint becomes its decimal
  text, a number is rounded, the members of an object are taken in the order of the
  sorted keys. (The branches for \<^verbatim>\<open>Date\<close>, \<^verbatim>\<open>FP_Quantity\<close> and \<^verbatim>\<open>FP_Type\<close> are not
  taken by the values of the model.)
\<close>

definition intToString :: "int \<Rightarrow> string" where
  "intToString i = (if i < 0 then CHR ''-'' # natToString (nat (- i)) else natToString (nat i))"

function prepareObject :: "jsval \<Rightarrow> jsval" where
  "prepareObject v =
     (case valDataConverted v of
        VNull \<Rightarrow> VNull
      | VBigInt i \<Rightarrow> VStr (intToString i)
      | VNum x \<Rightarrow> VNum (roundToMaxPrecision x)
      | VArr xs \<Rightarrow> VArr (map prepareObject xs)
      | VObj kvs \<Rightarrow>
          VObj (map (\<lambda>key. (key, prepareObject (getProp (VObj kvs) key)))
                  (sort (objectKeys (VObj kvs))))
      | value \<Rightarrow> value)"
  by pat_completeness auto

termination
proof (relation "measure size", goal_cases)
  case 1
  show ?case by simp
next
  case (2 v xs x)
  then show ?case by (simp add: valDataConverted_def less_Suc_eq_le size_list_estimation')
next
  case (3 v kvs key)
  then have "key \<in> set (objectKeys (VObj kvs))" by simp
  from getProp_size [OF this] 3 show ?case by (simp add: valDataConverted_def)
qed

declare prepareObject.simps [simp del]

text \<open>
  \<^verbatim>\<open>JSON.stringify\<close> is a built-in. Its text is not modelled character by character
  (the text of a finite number is the shortest decimal that denotes it, so two
  numbers have the same text exactly when they are the same); the model gives the
  document that the text denotes, \<open>jsonDocument\<close>: \<^verbatim>\<open>NaN\<close> and the infinities are
  written \<^verbatim>\<open>null\<close>, an
  \<^verbatim>\<open>undefined\<close> element of an array is written \<^verbatim>\<open>null\<close>, a member of an object
  whose value is \<^verbatim>\<open>undefined\<close> is left out, and \<^verbatim>\<open>JSON.stringify(undefined)\<close> is
  \<^verbatim>\<open>undefined\<close>. Two prepared objects have the same text exactly when they have the
  same document, so a hash key is compared as a document. (A bigint does not occur
  in a prepared object.) A key is never the name of a property that a table
  inherits from \<^verbatim>\<open>Object.prototype\<close>, so a table of keys is the list of the keys put
  into it.
\<close>

fun jsonDocument :: "jsval \<Rightarrow> jsval" where
  "jsonDocument (VNum NaN) = VNull"
| "jsonDocument (VNum PosInfinity) = VNull"
| "jsonDocument (VNum NegInfinity) = VNull"
| "jsonDocument (VArr xs) =
     VArr (map (\<lambda>x. if x = VUndefined then VNull else jsonDocument x) xs)"
| "jsonDocument (VObj kvs) =
     VObj (map (\<lambda>kv. (fst kv, jsonDocument (snd kv)))
             (filter (\<lambda>kv. snd kv \<noteq> VUndefined) kvs))"
| "jsonDocument v = v"

definition hashObject :: "jsval \<Rightarrow> jsval" where
  "hashObject obj = jsonDocument (prepareObject obj)"

section \<open>Filtering (filtering.ts)\<close>

text \<open>
  Modelled from the spec: \<^verbatim>\<open>TypeInfo.isPrimitiveValue\<close> is declared in \<^verbatim>\<open>./types\<close>,
  which is missing from the sources. The primitives of the specification are the
  value kinds Boolean, Integer, Long, Decimal and String (and the date and time
  kinds, which the model does not have).
\<close>

fun isPrimitiveValue :: "jsval \<Rightarrow> bool" where
  "isPrimitiveValue (VBool b) = True"
| "isPrimitiveValue (VNum x) = True"
| "isPrimitiveValue (VBigInt i) = True"
| "isPrimitiveValue (VStr s) = True"
| "isPrimitiveValue v = False"

definition maxCollSizeForDeepEqual :: nat where
  "maxCollSizeForDeepEqual = 6"

text \<open>
  \<open>distinctFn\<close>. \<open>distinctByHash\<close> is the \<^verbatim>\<open>for\<close> loop over \<open>x\<close> with the table
  \<^verbatim>\<open>uniqueHash\<close>. \<open>distinctByDeepEqual\<close> is the \<^verbatim>\<open>do ... while\<close> loop: \<open>xCopy\<close> is
  the reversed copy, \<^verbatim>\<open>pop\<close> takes its last element (and yields \<^verbatim>\<open>undefined\<close> on an
  empty array, which the guard \<^verbatim>\<open>x.length > 0\<close> excludes), and the rest is filtered.
\<close>

fun distinctByHash :: "jsval list \<Rightarrow> jsval list \<Rightarrow> jsval list \<Rightarrow> jsval list" where
  "distinctByHash [] unique uniqueHash = unique"
| "distinctByHash (xObj # x) unique uniqueHash =
     (let xStr = hashObject xObj in
      if xStr \<notin> set uniqueHash then distinctByHash x (unique @ [xObj]) (xStr # uniqueHash)
      else distinctByHash x unique uniqueHash)"

function distinctByDeepEqual :: "jsval list \<Rightarrow> jsval list \<Rightarrow> jsval list" where
  "distinctByDeepEqual xCopy unique =
     (let xObj = (if xCopy = [] then VUndefined else last xCopy);
          unique' = unique @ [xObj];
          xCopy' = filter (\<lambda>o'. \<not> deepEqual xObj o') (butlast xCopy)
      in if xCopy' \<noteq> [] then distinctByDeepEqual xCopy' unique' else unique')"
  by pat_completeness auto

termination
proof (relation "measure (\<lambda>(xCopy, unique). length xCopy)", goal_cases)
  case 1
  show ?case by simp
next
  case (2 xCopy unique xObj unique' xCopy')
  have le: "length xCopy' \<le> length (butlast xCopy)"
    unfolding 2(3) by (rule length_filter_le)
  have "butlast xCopy \<noteq> []" using 2(3,4) by auto
  then have "xCopy \<noteq> []" by auto
  then have "length (butlast xCopy) < length xCopy" by simp
  with le show ?case by simp
qed

declare distinctByDeepEqual.simps [simp del]

definition distinctFn :: "jsval list \<Rightarrow> bool option \<Rightarrow> jsval list" where
  "distinctFn x hasPrimitive =
     (if length x > 0 then
        (let hasPrimitive' =
               (case hasPrimitive of Some b \<Rightarrow> b | None \<Rightarrow> list_ex isPrimitiveValue x)
         in if \<not> hasPrimitive' \<and> length x > maxCollSizeForDeepEqual
            then distinctByHash x [] []
            else distinctByDeepEqual (rev x) [])
      else [])"

text \<open>
  \<open>getNewItems\<close> returns the new items and updates the state, which the model
  returns as well. \<open>newByHash\<close> and \<open>newByDeepEqual\<close> are the two calls of
  \<^verbatim>\<open>filter\<close>, whose callbacks update \<^verbatim>\<open>state.unique\<close> and \<^verbatim>\<open>state.res\<close> as they go.
\<close>

record RepeatState =
  res :: "jsval list"
  unique :: "jsval list"
  hasPrimitive :: bool

fun newByHash :: "jsval list \<Rightarrow> jsval list \<Rightarrow> jsval list \<times> jsval list" where
  "newByHash [] uniq = ([], uniq)"
| "newByHash (item # items) uniq =
     (let key = hashObject item in
      if key \<notin> set uniq
      then (case newByHash items (key # uniq) of (fresh, uniq') \<Rightarrow> (item # fresh, uniq'))
      else newByHash items uniq)"

fun newByDeepEqual :: "jsval list \<Rightarrow> jsval list \<Rightarrow> jsval list \<times> jsval list" where
  "newByDeepEqual [] acc = ([], acc)"
| "newByDeepEqual (item # items) acc =
     (if \<not> list_ex (\<lambda>i. deepEqual i item) acc
      then (case newByDeepEqual items (acc @ [item]) of (fresh, acc') \<Rightarrow> (item # fresh, acc'))
      else newByDeepEqual items acc)"

definition getNewItems :: "jsval list \<Rightarrow> RepeatState \<Rightarrow> jsval list \<times> RepeatState" where
  "getNewItems items state =
     (let hasPrimitive' = (hasPrimitive state \<or> list_ex isPrimitiveValue items) in
      if \<not> hasPrimitive' \<and> length items + length (res state) > maxCollSizeForDeepEqual
      then (case newByHash items (unique state) of
              (newItems, uniq') \<Rightarrow>
                (newItems, \<lparr>res = res state @ newItems, unique = uniq',
                            hasPrimitive = hasPrimitive'\<rparr>))
      else (case newByDeepEqual items (res state) of
              (newItems, res') \<Rightarrow>
                (newItems, \<lparr>res = res', unique = unique state,
                            hasPrimitive = hasPrimitive'\<rparr>)))"

text \<open>
  \<open>repeatMacro\<close> with a projection that returns its result at once; the branch for
  a projection that returns a promise repeats the same steps once the promises are
  resolved and is not modelled. \<^verbatim>\<open>[].concat(...arrays)\<close> appends the elements of an
  array and any other value as it is (\<open>spread\<close>). The recursion has no bound in the
  code, so the model is a partial function: \<open>None\<close> stands for a recursion that does
  not return.
\<close>

fun spread :: "jsval \<Rightarrow> jsval list" where
  "spread (VArr xs) = xs"
| "spread v = [v]"

partial_function (option) repeatMacro ::
  "jsval \<Rightarrow> (jsval \<Rightarrow> jsval) \<Rightarrow> RepeatState \<Rightarrow> jsval list option" where
  "repeatMacro parentData expr state =
     (if \<not> strict_equals parentData (VBool False) \<and> \<not> truthy parentData then Some []
      else
        (let newItems = concat (map (\<lambda>i. spread (expr i)) (if isArray parentData then spread parentData else [parentData]))
         in if newItems \<noteq> []
            then (case getNewItems newItems state of
                    (fresh, state') \<Rightarrow> repeatMacro (VArr fresh) expr state')
            else Some (res state)))"

declare repeatMacro.simps [code]

definition initialRepeatState :: RepeatState where
  "initialRepeatState = \<lparr>res = [], unique = [], hasPrimitive = False\<rparr>"

text \<open>
  Two objects for which the two strategies of \<open>distinctFn\<close> differ, and a projection
  that walks a cycle of two nodes.
\<close>

definition holderOfObject :: jsval where
  "holderOfObject = VObj [(''a'', VObj [])]"

definition holderOfArray :: jsval where
  "holderOfArray = VObj [(''a'', VArr [])]"

definition nodeA :: jsval where "nodeA = VObj [(''id'', VStr ''A'')]"
definition nodeB :: jsval where "nodeB = VObj [(''id'', VStr ''B'')]"

definition cycle :: "jsval \<Rightarrow> jsval" where
  "cycle x = (if x = nodeA then VArr [nodeB] else if x = nodeB then VArr [nodeA] else VArr [])"

text \<open>
  A projection that comes back to items it has produced: the root yields three
  items, and the first of them yields the three again and a fourth.
\<close>

definition item :: "string \<Rightarrow> jsval" where
  "item n = VObj [(''linkId'', VStr n)]"

definition revisit :: "jsval \<Rightarrow> jsval" where
  "revisit x =
     (if x = item ''0'' then VArr [item ''1'', item ''2'', item ''3'']
      else if x = item ''1'' then VArr [item ''1'', item ''2'', item ''3'', item ''4'']
      else VArr [])"

text \<open>A projection whose output is not \<open>deepEqual\<close> to itself.\<close>

definition nanProjection :: "jsval \<Rightarrow> jsval" where
  "nanProjection x = VArr [VNum NaN]"

text \<open>
  A collection whose items are apart: no item is \<open>deepEqual\<close> to a later one, the
  earlier item being the first argument.
\<close>

definition apart :: "jsval list \<Rightarrow> bool" where
  "apart xs = sorted_wrt (\<lambda>a b. \<not> deepEqual a b) xs"

text \<open>
  What a projection can produce, and the measure of the proof that \<open>repeatMacro\<close>
  returns: the hash keys not yet in the table plus the classes of values not yet in
  the result.
\<close>

definition outputs :: "(jsval \<Rightarrow> jsval) \<Rightarrow> jsval set" where
  "outputs expr = (\<Union>x. set (spread (expr x)))"

definition potential ::
  "(jsval \<Rightarrow> 'c) \<Rightarrow> jsval set \<Rightarrow> RepeatState \<Rightarrow> nat" where
  "potential cls R state =
     card (hashObject ` R - set (unique state)) + card (cls ` R - cls ` set (res state))"

section \<open>Logic operators (logic.ts)\<close>

text \<open>
  Each operator receives, for an operand, a boolean or the array of an empty
  collection. \<^verbatim>\<open>a === true\<close> is \<open>a = VBool True\<close>; \<^verbatim>\<open>return []\<close> is \<open>VArr []\<close>.
\<close>

definition orOp :: "jsval \<Rightarrow> jsval \<Rightarrow> jsval" where
  "orOp a b =
     (if isArray b \<and> a = VBool True then VBool True
      else if isArray b \<and> a = VBool False then VArr []
      else if isArray b \<and> isArray a then VArr []
      else if isArray a then (if b = VBool True then VBool True else VArr [])
      else js_or a b)"

definition andOp :: "jsval \<Rightarrow> jsval \<Rightarrow> jsval" where
  "andOp a b =
     (if isArray b \<and> a = VBool True then VArr []
      else if isArray b \<and> a = VBool False then VBool False
      else if isArray b \<and> isArray a then VArr []
      else if isArray a then (if b = VBool True then VArr [] else VBool False)
      else js_and a b)"

definition xorOp :: "jsval \<Rightarrow> jsval \<Rightarrow> jsval" where
  "xorOp a b =
     (if isArray a \<or> isArray b then VArr []
      else js_or (js_and a (js_not b)) (js_and (js_not a) b))"

definition impliesOp :: "jsval \<Rightarrow> jsval \<Rightarrow> jsval" where
  "impliesOp a b =
     (if isArray b \<and> a = VBool True then VArr []
      else if isArray b \<and> a = VBool False then VBool True
      else if isArray b \<and> isArray a then VArr []
      else if isArray a then (if b = VBool True then VBool True else VArr [])
      else if a = VBool False then VBool True
      else js_and a b)"

section \<open>Theorems\<close>

subsection \<open>Rounding to a double\<close>

text \<open>
  The exponent of a number is found by its place between two powers of two; the
  lemmas give \<open>exponentOf\<close> without a walk through the list of exponents.
\<close>

lemma find_upto:
  assumes "i \<le> k" and "k \<le> j" and "P k" and "\<And>l. i \<le> l \<Longrightarrow> l < k \<Longrightarrow> \<not> P l"
  shows "find P [i..j] = Some k"
proof -
  let ?n = "nat (k - i)"
  have len: "?n < length [i..j]" using assms by simp
  have nth: "\<And>m. m \<le> ?n \<Longrightarrow> [i..j] ! m = i + int m" using assms by (simp add: nth_upto)
  have a: "P ([i..j] ! ?n)" using nth [of ?n] assms by simp
  have b: "k = [i..j] ! ?n" using nth [of ?n] assms by simp
  have c: "\<forall>m<?n. \<not> P ([i..j] ! m)"
  proof (intro allI impI)
    fix m assume m: "m < ?n"
    then have "[i..j] ! m = i + int m" using nth [of m] by simp
    moreover have "\<not> P (i + int m)" using assms(4) [of "i + int m"] m by simp
    ultimately show "\<not> P ([i..j] ! m)" by simp
  qed
  show ?thesis unfolding find_Some_iff using len a b c by blast
qed

lemma exponentOf_eq:
  assumes "- 1022 \<le> k" and "k \<le> 1023" and "2 powi k \<le> \<bar>x\<bar>" and "\<bar>x\<bar> < 2 powi (k + 1)"
  shows "exponentOf x = k"
proof -
  have "find (\<lambda>k. \<bar>x\<bar> < 2 powi (k + 1)) [- 1022..1023] = Some k"
  proof (rule find_upto)
    fix l :: int assume "- 1022 \<le> l" and "l < k"
    then have "(2::real) powi (l + 1) \<le> 2 powi k" by (intro power_int_increasing) auto
    with assms(3) show "\<not> \<bar>x\<bar> < 2 powi (l + 1)" by simp
  qed (use assms in auto)
  then show ?thesis unfolding exponentOf_def by (simp only: option.simps)
qed

lemma exponentOf_subnormal:
  assumes "\<bar>x\<bar> < 2 powi (- 1021)"
  shows "exponentOf x = - 1022"
proof -
  have "find (\<lambda>k. \<bar>x\<bar> < 2 powi (k + 1)) [- 1022..1023] = Some (- 1022)"
    by (rule find_upto) (use assms in auto)
  then show ?thesis unfolding exponentOf_def by (simp only: option.simps)
qed

lemma exponentOf_overflow:
  assumes "2 powi 1024 \<le> \<bar>x\<bar>"
  shows "exponentOf x = 1024"
proof -
  have "find (\<lambda>k. \<bar>x\<bar> < 2 powi (k + 1)) [- 1022..1023] = None"
  proof (unfold find_None_iff, intro notI, elim exE conjE)
    fix l :: int assume l: "l \<in> set [- 1022..1023]" and lt: "\<bar>x\<bar> < 2 powi (l + 1)"
    from l have "l \<le> 1023" by (simp only: set_upto atLeastAtMost_iff)
    then have "(2::real) powi (l + 1) \<le> 2 powi 1024" by (intro power_int_increasing) auto
    with assms lt show False by simp
  qed
  then show ?thesis unfolding exponentOf_def by (simp only: option.simps)
qed

lemma toDouble_zero: "toDouble 0 = Fin 0"
proof -
  have "exponentOf 0 = - 1022" by (rule exponentOf_subnormal) simp
  then show ?thesis by (simp add: toDouble_def roundHalfEven_def)
qed

lemma toDouble_one: "toDouble 1 = Fin 1"
proof -
  have "exponentOf 1 = 0" by (rule exponentOf_eq) simp_all
  then show ?thesis by (simp add: toDouble_def roundHalfEven_def)
qed

lemma toDouble_twelve: "toDouble 12 = Fin 12"
proof -
  have "exponentOf 12 = 3" by (rule exponentOf_eq) simp_all
  then show ?thesis by (simp add: toDouble_def roundHalfEven_def)
qed

lemma toDouble_not_NaN: "toDouble x \<noteq> NaN"
  by (simp add: toDouble_def Let_def)

text \<open>The literal \<^verbatim>\<open>1e-8\<close> is a little more than \<open>10\<^sup>-\<^sup>8\<close>.\<close>

lemma PRECISION_STEP_value: "PRECISION_STEP = Fin (3022314549036573 / 2 ^ 78)"
proof -
  have "exponentOf (1 / 10 ^ 8) = - 27" by (rule exponentOf_eq) simp_all
  then show ?thesis by (simp add: PRECISION_STEP_def toDouble_def roundHalfEven_def)
qed

lemma roundToMaxPrecision_NaN: "roundToMaxPrecision NaN = NaN"
  by (simp add: roundToMaxPrecision_def)

lemma num_strict_equals_NaN: "\<not> num_strict_equals x NaN"
  by (cases x) simp_all

subsection \<open>Equality with an empty operand\<close>

lemma equality_of_empty_operand:
  "isEmpty a \<or> isEmpty b \<Longrightarrow> equal a b = VArr [] \<and> unequal a b = VBool False"
  by (simp add: equal_def unequal_def equality_def js_not_def)

text \<open>
  C1. With an empty operand \<open>equal\<close> returns the empty collection. \<open>unequal\<close> negates
  what \<open>equality\<close> returned unless that is \<^verbatim>\<open>undefined\<close>; the empty array is not
  \<^verbatim>\<open>undefined\<close> and is truthy, so \<open>unequal\<close> returns \<^verbatim>\<open>false\<close>, not the empty
  collection.
\<close>

theorem unequal_of_empty_operand:
  "equal (VArr []) (VArr [VNum (Fin 1)]) = VArr [] \<and>
   unequal (VArr []) (VArr [VNum (Fin 1)]) = VBool False \<and>
   unequal (VArr [VNum (Fin 1)]) (VArr []) = VBool False \<and>
   unequal (VArr []) (VArr []) = VBool False"
  by (simp add: equal_def unequal_def equality_def isEmpty_def js_not_def)

subsection \<open>Three-valued logic\<close>

text \<open>
  C2. The boolean operators follow the three-valued truth tables where an operand is
  the empty collection: \<open>{} or true = true\<close>, \<open>{} or false = {}\<close>,
  \<open>{} and false = false\<close>, \<open>{} and true = {}\<close>, \<open>xor\<close> with an empty operand on
  either side is \<open>{}\<close> whatever the other operand is, and \<open>{} implies true = true\<close>.
\<close>

theorem three_valued_logic_tables:
  "orOp (VArr []) (VBool True) = VBool True \<and>
   orOp (VArr []) (VBool False) = VArr [] \<and>
   andOp (VArr []) (VBool False) = VBool False \<and>
   andOp (VArr []) (VBool True) = VArr [] \<and>
   (\<forall>a b. a = VArr [] \<or> b = VArr [] \<longrightarrow> xorOp a b = VArr []) \<and>
   impliesOp (VArr []) (VBool True) = VBool True"
  by (auto simp: orOp_def andOp_def xorOp_def impliesOp_def)

theorem three_valued_logic_tables_witness:
  "xorOp (VArr []) (VBool True) = VArr [] \<and> xorOp (VBool False) (VArr []) = VArr []"
proof -
  have h: "\<forall>a b. a = VArr [] \<or> b = VArr [] \<longrightarrow> xorOp a b = VArr []"
    using three_valued_logic_tables by blast
  show ?thesis using h by blast
qed

subsection \<open>Equivalence of strings\<close>

lemma normalizeStr_example:
  "normalizeStr ''a b  c'' = ''A B  C'' \<and> normalizeStr ''a b c'' = ''A B C''"
  by (simp add: normalizeStr_def toUpperCase_def toUpperCaseChar_def isWhiteSpace_def)

text \<open>
  C3. The strings \<open>a b  c\<close> (two spaces before \<open>c\<close>) and \<open>a b c\<close> are identical
  after conversion to upper case and collapsing every run of white space, yet the
  equivalence comparison of the code returns false for them: \<open>normalizeStr\<close>
  replaces the first run only, so the second run keeps its two spaces.
\<close>

theorem equivalence_of_strings_first_run_only:
  "spec_normalizeStr ''a b  c'' = spec_normalizeStr ''a b c'' \<and>
   \<not> deepEqualFuzzy ''a b  c'' ''a b c''"
  by (simp add: spec_normalizeStr_def deepEqualFuzzy_def normalizeStr_def toUpperCase_def
      toUpperCaseChar_def isWhiteSpace_def)

subsection \<open>Conversion to a quantity\<close>

lemma quantity_of_one_year:
  "toQuantityValue spec_statics (VStr ''1 year'') = Some (FP_Quantity (Fin 1) ''year'')"
  by (simp add: quantityRegexExec_def isDigit_def isLetter_def isWhiteSpace_def
      decimalValue_def digitsValue_def digitValue_def spec_statics_def calendarDurations_def
      notString_def quoted_def toDouble_one)

text \<open>
  C4. \<open>toQuantity\<close> does not decide on the requested conversion, from the unit of
  the input quantity to \<open>toUnit\<close>: its test reads \<^verbatim>\<open>this.unit\<close>, the property of the
  evaluation context, which is undefined. Whenever \<open>toUnit\<close> is a calendar duration
  of more than a second, the result is \<^verbatim>\<open>null\<close> for every singleton input, whatever
  its unit. So \<open>'1 year'\<close> to \<open>month\<close>, a conversion between two calendar durations
  that crosses no boundary, gives \<^verbatim>\<open>null\<close>.
\<close>

theorem toQuantity_null_for_calendar_target:
  assumes "this_unit this = None"
    and "calendarDuration2Seconds S ''undefined'' = None"
    and "calendarDuration2Seconds S toUnit = Some secs"
    and "1 < secs"
    and "toUnit \<noteq> []"
  shows "toQuantity S this [v] (Some toUnit) = Inr QNull"
  using assms
  by (simp add: toQuantity_def checkSingleton_def propertyKey_def notNumber_def
      greaterThanOne_def)

theorem toQuantity_null_for_calendar_target_witness:
  "toQuantity spec_statics \<lparr>this_unit = None\<rparr> [VStr ''1 year''] (Some ''month'') = Inr QNull \<and>
   toQuantity spec_statics \<lparr>this_unit = None\<rparr> [VStr ''1 year''] None
     = Inr (QDefined (FP_Quantity (Fin 1) ''year''))"
proof -
  have tab: "calendarDuration2Seconds spec_statics ''undefined'' = None"
    "calendarDuration2Seconds spec_statics ''month'' = Some (30 * 24 * 60 * 60)"
    by (simp_all add: spec_statics_def calendarDurations_def)
  have "toQuantity spec_statics \<lparr>this_unit = None\<rparr> [VStr ''1 year''] (Some ''month'') = Inr QNull"
    by (rule toQuantity_null_for_calendar_target [OF _ tab]) simp_all
  moreover have "toQuantity spec_statics \<lparr>this_unit = None\<rparr> [VStr ''1 year''] None
     = Inr (QDefined (FP_Quantity (Fin 1) ''year''))"
    by (simp add: toQuantity_def checkSingleton_def valDataConverted_def quantity_of_one_year
        del: toQuantityValue.simps)
  ultimately show ?thesis by simp
qed

text \<open>
  Had the test read the unit of the input quantity, the same call would convert:
  with \<open>year\<close> in the place of \<^verbatim>\<open>this.unit\<close> the result is \<open>12 month\<close>.
\<close>

lemma spec_statics_entries:
  "calendarDuration2Seconds spec_statics ''year'' = Some (365 * 24 * 60 * 60)"
  "calendarDuration2Seconds spec_statics ''month'' = Some (30 * 24 * 60 * 60)"
  "calendarDuration2Seconds spec_statics ''undefined'' = None"
  "mapTimeUnitsToUCUMCode spec_statics ''month'' = Some (quoted ''mo'')"
  "convUnitTo spec_statics = convUnitTo_year_month"
  by (simp_all add: spec_statics_def calendarDurations_def)

lemma toQuantity_with_source_unit:
  "toQuantity spec_statics \<lparr>this_unit = Some ''year''\<rparr> [VStr ''1 year''] (Some ''month'')
     = Inr (QDefined (FP_Quantity (Fin 12) ''month''))"
  by (simp add: toQuantity_def checkSingleton_def valDataConverted_def quantity_of_one_year
      propertyKey_def notNumber_def greaterThanOne_def notString_def
      spec_statics_entries convUnitTo_year_month_def quoted_def toDouble_twelve
      del: toQuantityValue.simps)

subsection \<open>distinct\<close>

text \<open>
  Each strategy by itself is idempotent: the hash strategy returns items with
  different keys, which it returns unchanged, and the \<open>deepEqual\<close> strategy returns
  items that are apart, which it returns unchanged. So \<open>distinctFn\<close> is idempotent
  whenever both applications use the same strategy: on a collection of at most six
  items, when the caller says that there is a primitive, and on a collection without
  a primitive whose distinct items are more than six.
\<close>

lemma distinctByHash_result:
  "set seen = hashObject ` set acc \<Longrightarrow> distinct (map hashObject acc) \<Longrightarrow>
   \<exists>added. distinctByHash x acc seen = acc @ added \<and>
           distinct (map hashObject (acc @ added))"
proof (induction x arbitrary: acc seen)
  case Nil
  then show ?case by simp
next
  case (Cons xObj x)
  show ?case
  proof (cases "hashObject xObj \<in> set seen")
    case True
    with Cons.IH [OF Cons.prems] show ?thesis by simp
  next
    case False
    have a: "set (hashObject xObj # seen) = hashObject ` set (acc @ [xObj])"
      using Cons.prems by auto
    have b: "distinct (map hashObject (acc @ [xObj]))"
      using Cons.prems False by auto
    from Cons.IH [OF a b] obtain added where
      "distinctByHash x (acc @ [xObj]) (hashObject xObj # seen)
         = (acc @ [xObj]) @ added"
      "distinct (map hashObject ((acc @ [xObj]) @ added))" by blast
    with False show ?thesis by (intro exI [of _ "xObj # added"]) simp
  qed
qed

lemma distinctByHash_of_distinct:
  "set seen = hashObject ` set acc \<Longrightarrow> distinct (map hashObject (acc @ x)) \<Longrightarrow>
   distinctByHash x acc seen = acc @ x"
proof (induction x arbitrary: acc seen)
  case Nil
  then show ?case by simp
next
  case (Cons xObj x)
  have notin: "hashObject xObj \<notin> set seen" using Cons.prems by auto
  have a: "set (hashObject xObj # seen) = hashObject ` set (acc @ [xObj])"
    using Cons.prems by auto
  have b: "distinct (map hashObject ((acc @ [xObj]) @ x))" using Cons.prems by simp
  from Cons.IH [OF a b] notin show ?case by simp
qed

lemma distinctByHash_subset:
  "set (distinctByHash x acc seen) \<subseteq> set acc \<union> set x"
proof (induction x arbitrary: acc seen)
  case Nil
  then show ?case by simp
next
  case (Cons xObj x)
  from Cons.IH [of "acc @ [xObj]" "hashObject xObj # seen"] Cons.IH [of acc seen]
  show ?case by (auto simp: Let_def)
qed

lemma distinctByHash_idempotent:
  "distinctByHash (distinctByHash x [] []) [] [] = distinctByHash x [] []"
proof -
  from distinctByHash_result [of "[]" "[]" x] obtain added where
    r: "distinctByHash x [] [] = added" "distinct (map hashObject added)" by auto
  from distinctByHash_of_distinct [of "[]" "[]" added] r show ?thesis by simp
qed

text \<open>The loop of the \<open>deepEqual\<close> strategy, read on the collection in its own order.\<close>

lemma distinctByDeepEqual_Cons:
  "distinctByDeepEqual (rev (a # xs)) acc =
     (if filter (\<lambda>o'. \<not> deepEqual a o') xs \<noteq> []
      then distinctByDeepEqual (rev (filter (\<lambda>o'. \<not> deepEqual a o') xs)) (acc @ [a])
      else acc @ [a])"
  by (subst distinctByDeepEqual.simps) (simp add: rev_filter [symmetric] Let_def)

lemma distinctByDeepEqual_result:
  "x \<noteq> [] \<Longrightarrow>
   \<exists>kept. distinctByDeepEqual (rev x) acc = acc @ kept \<and> apart kept \<and>
          kept \<noteq> [] \<and> set kept \<subseteq> set x \<and> length kept \<le> length x"
proof (induction "length x" arbitrary: x acc rule: less_induct)
  case less
  then obtain a xs where x: "x = a # xs" by (cases x) auto
  let ?ys = "filter (\<lambda>o'. \<not> deepEqual a o') xs"
  show ?case
  proof (cases "?ys = []")
    case True
    have "distinctByDeepEqual (rev x) acc = acc @ [a]"
      unfolding x by (subst distinctByDeepEqual_Cons) (simp add: True)
    moreover have "apart [a]" by (simp add: apart_def)
    ultimately show ?thesis unfolding x by (intro exI [of _ "[a]"]) simp
  next
    case False
    have "length ?ys < length x" unfolding x by (simp add: less_Suc_eq_le)
    from less.hyps [OF this False, of "acc @ [a]"] obtain kept where
      k1: "distinctByDeepEqual (rev ?ys) (acc @ [a]) = (acc @ [a]) @ kept"
      and k2: "apart kept" and k3: "kept \<noteq> []" and k4: "set kept \<subseteq> set ?ys"
      and k5: "length kept \<le> length ?ys" by blast
    have r: "distinctByDeepEqual (rev x) acc = acc @ (a # kept)"
      unfolding x by (subst distinctByDeepEqual_Cons) (simp add: False k1)
    have "\<forall>y\<in>set kept. \<not> deepEqual a y" using k4 by auto
    then have ap: "apart (a # kept)" using k2 by (simp add: apart_def)
    have sub: "set (a # kept) \<subseteq> set x" using k4 unfolding x by auto
    have "length ?ys \<le> length xs" by (rule length_filter_le)
    with k5 have "length kept \<le> length xs" by (rule le_trans)
    then have len: "length (a # kept) \<le> length x" unfolding x by simp
    from r ap sub len show ?thesis by (intro exI [of _ "a # kept"]) simp
  qed
qed

lemma distinctByDeepEqual_of_apart:
  "x \<noteq> [] \<Longrightarrow> apart x \<Longrightarrow> distinctByDeepEqual (rev x) acc = acc @ x"
proof (induction x arbitrary: acc)
  case Nil
  then show ?case by simp
next
  case (Cons a xs)
  have "\<forall>y\<in>set xs. \<not> deepEqual a y" using Cons.prems(2) by (simp add: apart_def)
  then have f: "filter (\<lambda>o'. \<not> deepEqual a o') xs = xs" by (simp add: filter_id_conv)
  show ?case
  proof (cases "xs = []")
    case True
    then show ?thesis by (subst distinctByDeepEqual_Cons) simp
  next
    case False
    moreover have "apart xs" using Cons.prems(2) by (simp add: apart_def)
    ultimately have "distinctByDeepEqual (rev xs) (acc @ [a]) = (acc @ [a]) @ xs"
      by (rule Cons.IH)
    then show ?thesis by (subst distinctByDeepEqual_Cons) (simp add: f False)
  qed
qed

lemma distinctFn_idempotent_small:
  assumes "length x \<le> maxCollSizeForDeepEqual"
  shows "distinctFn (distinctFn x None) None = distinctFn x None"
proof (cases "x = []")
  case True
  then show ?thesis by (simp add: distinctFn_def)
next
  case False
  from distinctByDeepEqual_result [OF False, of "[]"] obtain kept where
    k: "distinctByDeepEqual (rev x) [] = kept" "apart kept" "kept \<noteq> []"
    "length kept \<le> length x" by auto
  have first: "distinctFn x None = kept"
    using False assms k(1) by (simp add: distinctFn_def)
  have "distinctFn kept None = distinctByDeepEqual (rev kept) []"
    using k(3,4) assms by (simp add: distinctFn_def)
  also have "\<dots> = kept" using distinctByDeepEqual_of_apart [OF k(3,2), of "[]"] by simp
  finally show ?thesis using first by simp
qed

lemma distinctFn_idempotent_primitive:
  "distinctFn (distinctFn x (Some True)) (Some True) = distinctFn x (Some True)"
proof (cases "x = []")
  case True
  then show ?thesis by (simp add: distinctFn_def)
next
  case False
  from distinctByDeepEqual_result [OF False, of "[]"] obtain kept where
    k: "distinctByDeepEqual (rev x) [] = kept" "apart kept" "kept \<noteq> []" by auto
  have first: "distinctFn x (Some True) = kept"
    using False k(1) by (simp add: distinctFn_def)
  have "distinctFn kept (Some True) = distinctByDeepEqual (rev kept) []"
    using k(3) by (simp add: distinctFn_def)
  also have "\<dots> = kept" using distinctByDeepEqual_of_apart [OF k(3,2), of "[]"] by simp
  finally show ?thesis using first by simp
qed

lemma distinctFn_idempotent_hash:
  assumes "\<not> list_ex isPrimitiveValue x"
    and "length (distinctFn x None) > maxCollSizeForDeepEqual"
  shows "distinctFn (distinctFn x None) None = distinctFn x None"
proof -
  have len: "length x > maxCollSizeForDeepEqual"
  proof (rule ccontr)
    assume "\<not> length x > maxCollSizeForDeepEqual"
    then have le: "length x \<le> maxCollSizeForDeepEqual" by simp
    show False
    proof (cases "x = []")
      case True
      with assms(2) show False by (simp add: distinctFn_def)
    next
      case False
      from distinctByDeepEqual_result [OF False, of "[]"] obtain kept where
        "distinctByDeepEqual (rev x) [] = kept" "length kept \<le> length x" by auto
      with False le assms(2) show False by (simp add: distinctFn_def)
    qed
  qed
  have first: "distinctFn x None = distinctByHash x [] []"
    using assms(1) len by (simp add: distinctFn_def)
  from distinctByHash_result [of "[]" "[]" x] obtain added where
    r: "distinctByHash x [] [] = added" by auto
  have sub: "set (distinctByHash x [] []) \<subseteq> set x"
    using distinctByHash_subset [of x "[]" "[]"] by simp
  have noprim: "\<not> list_ex isPrimitiveValue (distinctByHash x [] [])"
    using assms(1) sub by (auto simp: list_ex_iff)
  have "distinctFn (distinctByHash x [] []) None
          = distinctByHash (distinctByHash x [] []) [] []"
    using assms(2) noprim unfolding first by (simp add: distinctFn_def)
  then show ?thesis unfolding first by (simp add: distinctByHash_idempotent)
qed

text \<open>The two strategies are different relations.\<close>

lemma strategies_differ:
  "deepEqual holderOfObject holderOfArray \<and>
   hashObject holderOfObject \<noteq> hashObject holderOfArray"
  by (simp add: holderOfObject_def holderOfArray_def deepEqual.simps objEquiv.simps
      getProp_def objectKeys_def isUndefinedOrNull_def hashObject_def prepareObject.simps
      valDataConverted_def)

text \<open>
  C5. \<open>distinctFn\<close> is not idempotent on a collection of seven objects, \<open>{a: {}}\<close>
  five times and \<open>{a: []}\<close> once in second place. The first application has more
  than six items and no primitive, so it compares hash keys, by which the two
  objects differ: it returns both. The second application has two items, so it
  compares with \<open>deepEqual\<close>, for which the empty object and the empty array are
  equal (no keys on either side, and the same \<^verbatim>\<open>typeof\<close>): it returns the first only.
\<close>

theorem distinctFn_not_idempotent:
  "distinctFn [holderOfObject, holderOfArray, holderOfObject, holderOfObject,
               holderOfObject, holderOfObject, holderOfObject] None
     = [holderOfObject, holderOfArray] \<and>
   distinctFn (distinctFn [holderOfObject, holderOfArray, holderOfObject, holderOfObject,
                           holderOfObject, holderOfObject, holderOfObject] None) None
     = [holderOfObject]"
  by code_simp

subsection \<open>repeat\<close>

lemma newByHash_props:
  "newByHash items uniq = (fresh, uniq') \<Longrightarrow>
     set fresh \<subseteq> set items \<and> set uniq' = set uniq \<union> hashObject ` set fresh \<and>
     (fresh \<noteq> [] \<longrightarrow> \<not> hashObject ` set fresh \<subseteq> set uniq)"
proof (induction items arbitrary: uniq fresh uniq')
  case Nil
  then show ?case by simp
next
  case (Cons item items)
  show ?case
  proof (cases "hashObject item \<in> set uniq")
    case True
    with Cons.prems have "newByHash items uniq = (fresh, uniq')" by simp
    from Cons.IH [OF this] show ?thesis by auto
  next
    case False
    obtain f u where r: "newByHash items (hashObject item # uniq) = (f, u)"
      by (cases "newByHash items (hashObject item # uniq)")
    with False Cons.prems have eq: "fresh = item # f" "uniq' = u" by (simp_all add: Let_def)
    from Cons.IH [OF r] False show ?thesis unfolding eq by auto
  qed
qed

lemma newByDeepEqual_props:
  "newByDeepEqual items acc = (fresh, acc') \<Longrightarrow>
     set fresh \<subseteq> set items \<and> acc' = acc @ fresh \<and>
     (fresh \<noteq> [] \<longrightarrow> (\<exists>x\<in>set fresh. \<forall>i\<in>set acc. \<not> deepEqual i x))"
proof (induction items arbitrary: acc fresh acc')
  case Nil
  then show ?case by simp
next
  case (Cons item items)
  show ?case
  proof (cases "list_ex (\<lambda>i. deepEqual i item) acc")
    case True
    with Cons.prems have "newByDeepEqual items acc = (fresh, acc')" by simp
    from Cons.IH [OF this] show ?thesis by auto
  next
    case False
    obtain f a where r: "newByDeepEqual items (acc @ [item]) = (f, a)"
      by (cases "newByDeepEqual items (acc @ [item])")
    with False Cons.prems have eq: "fresh = item # f" "acc' = a" by simp_all
    from False have "\<forall>i\<in>set acc. \<not> deepEqual i item" by (simp add: list_ex_iff)
    with Cons.IH [OF r] show ?thesis unfolding eq by auto
  qed
qed

lemma getNewItems_props:
  assumes fin_hash: "finite (hashObject ` R)"
    and fin_cls: "finite (cls ` R)"
    and cls_eq: "\<forall>x\<in>R. \<forall>y\<in>R. cls x = cls y \<longrightarrow> deepEqual x y"
    and inv: "set (res state) \<subseteq> R"
    and items: "set items \<subseteq> R"
    and step: "getNewItems items state = (fresh, state')"
  shows "res state' = res state @ fresh" 
    and "set fresh \<subseteq> set items"
    and "fresh \<noteq> [] \<Longrightarrow> potential cls R state' < potential cls R state"
proof -
  let ?hash = "\<not> (hasPrimitive state \<or> list_ex isPrimitiveValue items) \<and>
      length items + length (res state) > maxCollSizeForDeepEqual"
  have "res state' = res state @ fresh \<and> set fresh \<subseteq> set items \<and>
        (fresh \<noteq> [] \<longrightarrow> potential cls R state' < potential cls R state)"
  proof (cases ?hash)
    case True
    obtain f u where r: "newByHash items (unique state) = (f, u)"
      by (cases "newByHash items (unique state)")
    with True step have eq: "fresh = f"
      "state' = \<lparr>res = res state @ f, unique = u,
                 hasPrimitive = (hasPrimitive state \<or> list_ex isPrimitiveValue items)\<rparr>"
      by (auto simp: getNewItems_def Let_def)
    note p = newByHash_props [OF r]
    have sub: "set f \<subseteq> R" using p items by auto
    have mono2: "cls ` R - cls ` set (res state @ f) \<subseteq> cls ` R - cls ` set (res state)"
      by auto
    have c2: "card (cls ` R - cls ` set (res state @ f)) \<le> card (cls ` R - cls ` set (res state))"
      by (rule card_mono) (use fin_cls mono2 in auto)
    have c1: "f \<noteq> [] \<Longrightarrow>
        card (hashObject ` R - set u) < card (hashObject ` R - set (unique state))"
    proof -
      assume "f \<noteq> []"
      with p obtain x where x: "x \<in> set f" "hashObject x \<notin> set (unique state)" by auto
      have "hashObject ` R - set u \<subseteq> hashObject ` R - set (unique state)"
        using p by auto
      moreover have "hashObject x \<in> hashObject ` R - set (unique state)"
        using x sub by auto
      moreover have "hashObject x \<notin> hashObject ` R - set u"
        using p x by auto
      ultimately have "hashObject ` R - set u \<subset> hashObject ` R - set (unique state)"
        by blast
      then show ?thesis using fin_hash by (intro psubset_card_mono) auto
    qed
    have c1': "card (hashObject ` R - set u) \<le> card (hashObject ` R - set (unique state))"
      by (rule card_mono) (use fin_hash p in auto)
    show ?thesis using p c1 c2 unfolding eq potential_def by auto
  next
    case False
    obtain f a where r: "newByDeepEqual items (res state) = (f, a)"
      by (cases "newByDeepEqual items (res state)")
    with False step have eq: "fresh = f"
      "state' = \<lparr>res = a, unique = unique state,
                 hasPrimitive = (hasPrimitive state \<or> list_ex isPrimitiveValue items)\<rparr>"
      by (auto simp: getNewItems_def Let_def)
    note p = newByDeepEqual_props [OF r]
    have sub: "set f \<subseteq> R" using p items by auto
    have c2: "f \<noteq> [] \<Longrightarrow>
        card (cls ` R - cls ` set a) < card (cls ` R - cls ` set (res state))"
    proof -
      assume "f \<noteq> []"
      with p obtain x where x: "x \<in> set f" "\<forall>i\<in>set (res state). \<not> deepEqual i x" by auto
      have xR: "x \<in> R" using x sub by auto
      have "cls x \<notin> cls ` set (res state)"
      proof
        assume "cls x \<in> cls ` set (res state)"
        then obtain i where i: "i \<in> set (res state)" "cls i = cls x" by auto
        with inv have "i \<in> R" by auto
        with cls_eq xR i have "deepEqual i x" by blast
        with x i show False by blast
      qed
      moreover have "cls x \<in> cls ` set a" using p x by auto
      moreover have "cls x \<in> cls ` R" using xR by auto
      moreover have "cls ` R - cls ` set a \<subseteq> cls ` R - cls ` set (res state)"
        using p by auto
      ultimately have "cls ` R - cls ` set a \<subset> cls ` R - cls ` set (res state)"
        by blast
      then show ?thesis using fin_cls by (intro psubset_card_mono) auto
    qed
    show ?thesis using p c2 unfolding eq potential_def by auto
  qed
  then show "res state' = res state @ fresh" and "set fresh \<subseteq> set items"
    and "fresh \<noteq> [] \<Longrightarrow> potential cls R state' < potential cls R state"
    by auto
qed

lemma newItems_in_outputs:
  "set (concat (map (\<lambda>i. spread (expr i)) xs)) \<subseteq> outputs expr"
  by (auto simp: outputs_def)

lemma repeatMacro_no_items:
  "concat (map (\<lambda>i. spread (expr i)) xs) = [] \<Longrightarrow>
   repeatMacro (VArr xs) expr state = Some (res state)"
  by (subst repeatMacro.simps) simp

lemma repeatMacro_step:
  "concat (map (\<lambda>i. spread (expr i)) xs) \<noteq> [] \<Longrightarrow>
   getNewItems (concat (map (\<lambda>i. spread (expr i)) xs)) state = (fresh, state') \<Longrightarrow>
   repeatMacro (VArr xs) expr state = repeatMacro (VArr fresh) expr state'"
  by (subst repeatMacro.simps) simp

text \<open>
  \<open>repeatMacro\<close> returns on every input collection when the outputs of the
  projection are finite up to the two relations by which new items are told from old
  ones: they have finitely many hash keys, and they fall into finitely many classes
  \<open>cls\<close> such that two outputs of one class are \<open>deepEqual\<close>. The result is the
  running result \<open>res state\<close> followed by the items \<open>found\<close>, all of them outputs of
  the projection: every round appends its items behind those found before.
  (The first call has the empty result in its state.)
\<close>

lemma repeatMacro_returns:
  assumes fin_hash: "finite (hashObject ` outputs expr)"
    and fin_cls: "finite (cls ` outputs expr)"
    and cls_eq: "\<forall>x\<in>outputs expr. \<forall>y\<in>outputs expr. cls x = cls y \<longrightarrow> deepEqual x y"
    and inv: "set (res state) \<subseteq> outputs expr"
  shows "\<exists>found. repeatMacro (VArr xs) expr state = Some (res state @ found) \<and>
                 set found \<subseteq> outputs expr"
  using inv
proof (induction "potential cls (outputs expr) state" arbitrary: xs state rule: less_induct)
  case less
  let ?new = "concat (map (\<lambda>i. spread (expr i)) xs)"
  show ?case
  proof (cases "?new = []")
    case True
    then show ?thesis using repeatMacro_no_items [of expr xs state] by simp
  next
    case False
    obtain fresh state' where step: "getNewItems ?new state = (fresh, state')"
      by (cases "getNewItems ?new state")
    note p = getNewItems_props [OF fin_hash fin_cls cls_eq less.prems newItems_in_outputs step]
    have unfold: "repeatMacro (VArr xs) expr state = repeatMacro (VArr fresh) expr state'"
      by (rule repeatMacro_step [OF False step])
    have fresh_out: "set fresh \<subseteq> outputs expr"
      using p(2) newItems_in_outputs [of expr xs] by blast
    have inv': "set (res state') \<subseteq> outputs expr"
      using p(1) less.prems fresh_out by auto
    show ?thesis
    proof (cases "fresh = []")
      case True
      then have "concat (map (\<lambda>i. spread (expr i)) fresh) = []" by simp
      from repeatMacro_no_items [OF this, of state'] unfold p(1) True
      show ?thesis by simp
    next
      case False
      from less.hyps [OF p(3) [OF False] inv']
      obtain found where "repeatMacro (VArr fresh) expr state' = Some (res state' @ found)"
        "set found \<subseteq> outputs expr" by blast
      then show ?thesis using unfold p(1) fresh_out
        by (intro exI [of _ "fresh @ found"]) simp
    qed
  qed
qed

lemma outputs_cycle: "outputs cycle = {nodeA, nodeB}"
  by (auto simp: outputs_def cycle_def split: if_splits)

lemma deepEqual_nodes:
  "deepEqual nodeA nodeA" "deepEqual nodeB nodeB"
  "\<not> deepEqual nodeA nodeB" "\<not> deepEqual nodeB nodeA"
  by (simp_all add: nodeA_def nodeB_def deepEqual.simps objEquiv.simps getProp_def
      objectKeys_def isUndefinedOrNull_def)

lemma cycle_run:
  "repeatMacro (VArr [nodeA]) cycle initialRepeatState = Some [nodeB, nodeA]"
proof -
  have ne: "nodeA \<noteq> nodeB" by (simp add: nodeA_def nodeB_def)
  have np: "\<not> isPrimitiveValue nodeA" "\<not> isPrimitiveValue nodeB"
    by (simp_all add: nodeA_def nodeB_def)
  have s1: "getNewItems [nodeB] initialRepeatState
            = ([nodeB], \<lparr>res = [nodeB], unique = [], hasPrimitive = False\<rparr>)"
    by (simp add: getNewItems_def initialRepeatState_def maxCollSizeForDeepEqual_def np)
  have s2: "getNewItems [nodeA] \<lparr>res = [nodeB], unique = [], hasPrimitive = False\<rparr>
            = ([nodeA], \<lparr>res = [nodeB, nodeA], unique = [], hasPrimitive = False\<rparr>)"
    by (simp add: getNewItems_def maxCollSizeForDeepEqual_def np deepEqual_nodes)
  have s3: "getNewItems [nodeB] \<lparr>res = [nodeB, nodeA], unique = [], hasPrimitive = False\<rparr>
            = ([], \<lparr>res = [nodeB, nodeA], unique = [], hasPrimitive = False\<rparr>)"
    by (simp add: getNewItems_def maxCollSizeForDeepEqual_def np deepEqual_nodes)
  have "repeatMacro (VArr [nodeA]) cycle initialRepeatState
        = repeatMacro (VArr [nodeB]) cycle \<lparr>res = [nodeB], unique = [], hasPrimitive = False\<rparr>"
    by (rule repeatMacro_step) (simp_all add: cycle_def s1)
  also have "\<dots> = repeatMacro (VArr [nodeA]) cycle
                     \<lparr>res = [nodeB, nodeA], unique = [], hasPrimitive = False\<rparr>"
    by (rule repeatMacro_step) (simp_all add: cycle_def s2 ne [symmetric])
  also have "\<dots> = repeatMacro (VArr []) cycle
                     \<lparr>res = [nodeB, nodeA], unique = [], hasPrimitive = False\<rparr>"
    by (rule repeatMacro_step) (simp_all add: cycle_def s3)
  also have "\<dots> = Some [nodeB, nodeA]"
    using repeatMacro_no_items [of cycle "[]"] by simp
  finally show ?thesis .
qed

lemma repeatMacro_returns_on_cycle:
  "(\<exists>found. repeatMacro (VArr [nodeA]) cycle initialRepeatState = Some found \<and>
            set found \<subseteq> {nodeA, nodeB}) \<and>
   repeatMacro (VArr [nodeA]) cycle initialRepeatState = Some [nodeB, nodeA]"
proof -
  have fin_hash: "finite (hashObject ` outputs cycle)" by (simp add: outputs_cycle)
  have fin_cls: "finite (id ` outputs cycle)" by (simp add: outputs_cycle)
  have cls_eq: "\<forall>x\<in>outputs cycle. \<forall>y\<in>outputs cycle. id x = id y \<longrightarrow> deepEqual x y"
    by (simp add: outputs_cycle deepEqual_nodes)
  have inv: "set (res initialRepeatState) \<subseteq> outputs cycle"
    by (simp add: initialRepeatState_def)
  from repeatMacro_returns [OF fin_hash fin_cls cls_eq inv, of "[nodeA]"]
  have "\<exists>found. repeatMacro (VArr [nodeA]) cycle initialRepeatState = Some found \<and>
            set found \<subseteq> {nodeA, nodeB}"
    by (simp add: initialRepeatState_def outputs_cycle)
  then show ?thesis using cycle_run by simp
qed

text \<open>
  The condition on the classes is not met by every finite set of outputs. The
  number \<^verbatim>\<open>NaN\<close> is a primitive, so it is compared with \<open>deepEqual\<close>, and it is not
  \<open>deepEqual\<close> to itself: with a projection that returns \<^verbatim>\<open>NaN\<close> every round finds a
  new item.
\<close>

lemma NaN_not_deepEqual: "\<not> deepEqual i (VNum NaN)"
proof -
  have a: "\<not> strict_equals i (VNum NaN)"
    by (cases i) (auto simp: num_strict_equals_NaN)
  have b: "numberEquality i (VNum NaN) = None \<or> numberEquality i (VNum NaN) = Some False"
    by (cases i) (auto simp: isEqual_def roundToMaxPrecision_NaN num_strict_equals_NaN)
  show ?thesis using a b by (subst deepEqual.simps) auto
qed

lemma newByDeepEqual_NaN:
  "newByDeepEqual (replicate n (VNum NaN)) acc
     = (replicate n (VNum NaN), acc @ replicate n (VNum NaN))"
proof (induction n arbitrary: acc)
  case 0
  then show ?case by simp
next
  case (Suc n)
  have "\<not> list_ex (\<lambda>i. deepEqual i (VNum NaN)) acc"
    by (simp add: list_ex_iff NaN_not_deepEqual)
  then show ?case using Suc [of "acc @ [VNum NaN]"]
    by (simp add: replicate_append_same)
qed

lemma getNewItems_NaN:
  "0 < n \<Longrightarrow> fst (getNewItems (replicate n (VNum NaN)) state) = replicate n (VNum NaN)"
  by (simp add: getNewItems_def newByDeepEqual_NaN list_ex_iff)

lemma repeatMacro_NaN_diverges:
  "repeatMacro (VArr [VNull]) nanProjection initialRepeatState = None"
proof (rule ccontr)
  assume "repeatMacro (VArr [VNull]) nanProjection initialRepeatState \<noteq> None"
  then obtain y where y: "repeatMacro (VArr [VNull]) nanProjection initialRepeatState = Some y"
    by auto
  have "\<not> (nanProjection = nanProjection \<and> (\<exists>xs. VArr [VNull] = VArr xs \<and> xs \<noteq> []))"
  proof (rule repeatMacro.raw_induct
      [where P = "\<lambda>parentData expr state r.
         \<not> (expr = nanProjection \<and> (\<exists>xs. parentData = VArr xs \<and> xs \<noteq> []))", OF _ y],
      goal_cases)
    case (1 f parentData expr state r)
    show ?case
    proof
      assume "expr = nanProjection \<and> (\<exists>xs. parentData = VArr xs \<and> xs \<noteq> [])"
      then obtain xs where e: "expr = nanProjection" and p: "parentData = VArr xs"
        and ne: "xs \<noteq> []" by blast
      have new: "concat (map (\<lambda>i. spread (nanProjection i)) xs)
                 = replicate (length xs) (VNum NaN)"
        by (induction xs) (simp_all add: nanProjection_def)
      obtain fresh state' where
        g: "getNewItems (replicate (length xs) (VNum NaN)) state = (fresh, state')"
        by (cases "getNewItems (replicate (length xs) (VNum NaN)) state")
      have fresh: "fresh = replicate (length xs) (VNum NaN)"
        using getNewItems_NaN [of "length xs" state] ne g by simp
      from 1(2) have "f (VArr fresh) expr state' = Some r"
        unfolding e p using ne g new by (simp add: fresh)
      from 1(1) [OF this] show False using e fresh ne by simp
    qed
  qed
  then show False by simp
qed

text \<open>
  The two branches of \<open>getNewItems\<close> keep separate records: the \<open>deepEqual\<close> branch
  looks in \<^verbatim>\<open>state.res\<close> and leaves \<^verbatim>\<open>state.unique\<close> as it is, the hash branch looks
  in \<^verbatim>\<open>state.unique\<close> only. With \<open>revisit\<close> the first round takes the \<open>deepEqual\<close>
  branch (three items), the second the hash branch (four items and three results,
  more than six), whose table is still empty.
\<close>

lemma revisit_run:
  "repeatMacro (VArr [item ''0'']) revisit initialRepeatState
     = Some [item ''1'', item ''2'', item ''3'', item ''1'', item ''2'', item ''3'', item ''4'']"
  by code_simp

text \<open>
  C6. \<open>repeatMacro\<close> does not add new items only, and it does not return for every
  projection with finitely many outputs. From the root, \<open>revisit\<close> produces the items
  1, 2, 3 and then 1, 2, 3, 4: the result holds the items 1, 2 and 3 twice, the
  second round adding items that are in the running result. With the projection
  that returns \<^verbatim>\<open>NaN\<close>, a single output, the recursion does not return (\<open>None\<close>).
\<close>

theorem repeatMacro_adds_items_again:
  "repeatMacro (VArr [item ''0'']) revisit initialRepeatState
     = Some [item ''1'', item ''2'', item ''3'', item ''1'', item ''2'', item ''3'', item ''4''] \<and>
   repeatMacro (VArr [VNull]) nanProjection initialRepeatState = None"
  using revisit_run repeatMacro_NaN_diverges by simp

subsection \<open>Equality of numbers\<close>

lemma deepEqual_singletons: "deepEqual (VArr [x]) (VArr [y]) = deepEqual x y"
  by (simp add: deepEqual.simps [of "VArr [x]" "VArr [y]"] objEquiv.simps getProp_def
      objectKeys_def natToString.simps isUndefinedOrNull_def)

text \<open>
  What the code computes: two numbers are equal exactly when
  \<^verbatim>\<open>Math.round(x / 1e-8) * 1e-8\<close>, evaluated in doubles, gives the same number for
  both. (The test \<^verbatim>\<open>actual === expected\<close> before it adds nothing: the rounded value of
  a number other than \<^verbatim>\<open>NaN\<close> is not \<^verbatim>\<open>NaN\<close>.)
\<close>

lemma num_strict_equals_refl: "x \<noteq> NaN \<Longrightarrow> num_strict_equals x x"
  by (cases x) simp_all

lemma num_strict_equals_same: "num_strict_equals a b \<Longrightarrow> a = b \<and> a \<noteq> NaN"
  by (cases a; cases b) simp_all

lemma roundToMaxPrecision_not_NaN:
  "x \<noteq> NaN \<Longrightarrow> roundToMaxPrecision x \<noteq> NaN"
proof (cases x)
  case (Fin a)
  let ?q = "toDouble (a / (3022314549036573 / 2 ^ 78))"
  have "roundToMaxPrecision x = num_mul (Math_round ?q) (Fin (3022314549036573 / 2 ^ 78))"
    by (simp add: roundToMaxPrecision_def PRECISION_STEP_value Fin)
  moreover have "num_mul (Math_round ?q) (Fin (3022314549036573 / 2 ^ 78)) \<noteq> NaN"
    using toDouble_not_NaN [of "a / (3022314549036573 / 2 ^ 78)"]
    by (cases ?q) (simp_all add: toDouble_not_NaN)
  ultimately show ?thesis by simp
qed (simp_all add: roundToMaxPrecision_def PRECISION_STEP_value)

lemma isEqual_of_strict_equals: "num_strict_equals a b \<Longrightarrow> isEqual a b"
  using num_strict_equals_same [of a b] roundToMaxPrecision_not_NaN [of a]
  by (auto simp: isEqual_def num_strict_equals_refl)

lemma deepEqual_numbers:
  "deepEqual (VNum a) (VNum b)
     = num_strict_equals (roundToMaxPrecision a) (roundToMaxPrecision b)"
  using isEqual_of_strict_equals [of a b]
  by (auto simp: deepEqual.simps [of "VNum a" "VNum b"] isEqual_def)

text \<open>The two neighbouring doubles, their quotients by the step, and the product.\<close>

lemma lowerDecimal_value: "lowerDecimal = Fin (6710886400000001 / 2 ^ 26)"
proof -
  have "exponentOf (10000000000000001 / 10 ^ 8) = 26" by (rule exponentOf_eq) simp_all
  then show ?thesis by (simp add: lowerDecimal_def toDouble_def roundHalfEven_def)
qed

lemma upperDecimal_value: "upperDecimal = Fin (6710886400000002 / 2 ^ 26)"
proof -
  have "exponentOf (10000000000000003 / 10 ^ 8) = 26" by (rule exponentOf_eq) simp_all
  then show ?thesis by (simp add: upperDecimal_def toDouble_def roundHalfEven_def)
qed

lemma quotient_of_lowerDecimal:
  "num_div lowerDecimal PRECISION_STEP = Fin 10000000000000002"
proof -
  let ?x = "(6710886400000001 / 2 ^ 26) / (3022314549036573 / 2 ^ 78) :: real"
  have "exponentOf ?x = 53" by (rule exponentOf_eq) simp_all
  then have "toDouble ?x = Fin 10000000000000002"
    by (simp add: toDouble_def roundHalfEven_def)
  then show ?thesis by (simp add: PRECISION_STEP_value lowerDecimal_value)
qed

lemma quotient_of_upperDecimal:
  "num_div upperDecimal PRECISION_STEP = Fin 10000000000000002"
proof -
  let ?x = "(6710886400000002 / 2 ^ 26) / (3022314549036573 / 2 ^ 78) :: real"
  have "exponentOf ?x = 53" by (rule exponentOf_eq) simp_all
  then have "toDouble ?x = Fin 10000000000000002"
    by (simp add: toDouble_def roundHalfEven_def)
  then show ?thesis by (simp add: PRECISION_STEP_value upperDecimal_value)
qed

lemma product_of_quotient:
  "num_mul (Fin 10000000000000002) PRECISION_STEP = lowerDecimal"
proof -
  let ?x = "10000000000000002 * (3022314549036573 / 2 ^ 78) :: real"
  have "exponentOf ?x = 26" by (rule exponentOf_eq) simp_all
  then have "toDouble ?x = Fin (6710886400000001 / 2 ^ 26)"
    by (simp add: toDouble_def roundHalfEven_def)
  then show ?thesis by (simp add: PRECISION_STEP_value lowerDecimal_value)
qed

lemma roundToMaxPrecision_of_decimals:
  "roundToMaxPrecision lowerDecimal = lowerDecimal"
  "roundToMaxPrecision upperDecimal = lowerDecimal"
  by (simp_all add: roundToMaxPrecision_def quotient_of_lowerDecimal quotient_of_upperDecimal
      product_of_quotient)

text \<open>The quotient of a large number by the step is beyond the doubles.\<close>

lemma roundToMaxPrecision_overflow:
  "roundToMaxPrecision (Fin (2 ^ 1001)) = PosInfinity"
  "roundToMaxPrecision (Fin (2 ^ 1002)) = PosInfinity"
proof -
  let ?x = "2 ^ 1001 / (3022314549036573 / 2 ^ 78) :: real"
  let ?y = "2 ^ 1002 / (3022314549036573 / 2 ^ 78) :: real"
  have "exponentOf ?x = 1024" by (rule exponentOf_overflow) simp
  then have x: "toDouble ?x = PosInfinity" by (simp add: toDouble_def roundHalfEven_def)
  have "exponentOf ?y = 1024" by (rule exponentOf_overflow) simp
  then have y: "toDouble ?y = PosInfinity" by (simp add: toDouble_def roundHalfEven_def)
  show "roundToMaxPrecision (Fin (2 ^ 1001)) = PosInfinity"
    using x by (simp add: roundToMaxPrecision_def PRECISION_STEP_value)
  show "roundToMaxPrecision (Fin (2 ^ 1002)) = PosInfinity"
    using y by (simp add: roundToMaxPrecision_def PRECISION_STEP_value)
qed

text \<open>
  On small numbers the rounding does what it is for: the sum \<^verbatim>\<open>0.1 + 0.1 + 0.1\<close>, which
  is the double above \<^verbatim>\<open>0.3\<close>, is equal to \<^verbatim>\<open>0.3\<close>.
\<close>

lemma deepEqual_removes_noise:
  "\<not> strict_equals (VNum threeTenthsSum) (VNum threeTenths) \<and>
   deepEqual (VNum threeTenthsSum) (VNum threeTenths)"
proof -
  have a: "threeTenthsSum = Fin (5404319552844596 / 2 ^ 54)"
  proof -
    have "exponentOf (30000000000000004 / 10 ^ 17) = - 2" by (rule exponentOf_eq) simp_all
    then show ?thesis by (simp add: threeTenthsSum_def toDouble_def roundHalfEven_def)
  qed
  have b: "threeTenths = Fin (5404319552844595 / 2 ^ 54)"
  proof -
    have "exponentOf (3 / 10) = - 2" by (rule exponentOf_eq) simp_all
    then show ?thesis by (simp add: threeTenths_def toDouble_def roundHalfEven_def)
  qed
  let ?x = "(5404319552844596 / 2 ^ 54) / (3022314549036573 / 2 ^ 78) :: real"
  let ?y = "(5404319552844595 / 2 ^ 54) / (3022314549036573 / 2 ^ 78) :: real"
  have "exponentOf ?x = 24" by (rule exponentOf_eq) simp_all
  then have x: "toDouble ?x = Fin (8053063680000001 / 2 ^ 28)"
    by (simp add: toDouble_def roundHalfEven_def)
  have "exponentOf ?y = 24" by (rule exponentOf_eq) simp_all
  then have y: "toDouble ?y = Fin 30000000"
    by (simp add: toDouble_def roundHalfEven_def)
  have r: "roundToMaxPrecision threeTenthsSum = num_mul (Fin 30000000) PRECISION_STEP"
      "roundToMaxPrecision threeTenths = num_mul (Fin 30000000) PRECISION_STEP"
    using x y by (simp_all add: roundToMaxPrecision_def PRECISION_STEP_value a b)
  have "num_mul (Fin 30000000) PRECISION_STEP \<noteq> NaN"
    by (simp add: PRECISION_STEP_value toDouble_not_NaN)
  then show ?thesis
    by (simp add: deepEqual_numbers r num_strict_equals_refl) (simp add: a b)
qed

text \<open>
  C7. Equality of two numbers does not compare their nearest multiples of the
  precision step. The literals \<^verbatim>\<open>100000000.00000001\<close> and \<^verbatim>\<open>100000000.00000003\<close> denote
  two neighbouring doubles; their nearest multiples of \<open>10\<^sup>-\<^sup>8\<close> are the two decimals
  written, which differ, and the two numbers are different under \<^verbatim>\<open>===\<close>. The code
  finds them equal: the quotient by the step is near \<open>10\<^sup>1\<^sup>6\<close>, where the doubles are
  the even integers, and both quotients are rounded to \<open>10000000000000002\<close>, so
  \<open>roundToMaxPrecision\<close> gives the lower number for both. The numbers \<open>2\<^sup>1\<^sup>0\<^sup>0\<^sup>1\<close> and
  \<open>2\<^sup>1\<^sup>0\<^sup>0\<^sup>2\<close> are found equal as well: both quotients are infinite.
\<close>

theorem equal_numbers_with_different_multiples:
  "lowerDecimal = Fin (6710886400000001 / 2 ^ 26) \<and>
   upperDecimal = Fin (6710886400000002 / 2 ^ 26) \<and>
   spec_nearestMultiple (6710886400000001 / 2 ^ 26) = 10000000000000001 / 10 ^ 8 \<and>
   spec_nearestMultiple (6710886400000002 / 2 ^ 26) = 10000000000000003 / 10 ^ 8 \<and>
   \<not> strict_equals (VNum lowerDecimal) (VNum upperDecimal) \<and>
   roundToMaxPrecision lowerDecimal = lowerDecimal \<and>
   roundToMaxPrecision upperDecimal = lowerDecimal \<and>
   deepEqual (VNum lowerDecimal) (VNum upperDecimal) \<and>
   equal (VArr [VNum lowerDecimal]) (VArr [VNum upperDecimal]) = VBool True \<and>
   deepEqual (VNum (Fin (2 ^ 1001))) (VNum (Fin (2 ^ 1002)))"
proof (intro conjI)
  show "lowerDecimal = Fin (6710886400000001 / 2 ^ 26)" by (rule lowerDecimal_value)
  show "upperDecimal = Fin (6710886400000002 / 2 ^ 26)" by (rule upperDecimal_value)
  show "spec_nearestMultiple (6710886400000001 / 2 ^ 26) = 10000000000000001 / 10 ^ 8"
    by (simp add: spec_nearestMultiple_def)
  show "spec_nearestMultiple (6710886400000002 / 2 ^ 26) = 10000000000000003 / 10 ^ 8"
    by (simp add: spec_nearestMultiple_def)
  show "\<not> strict_equals (VNum lowerDecimal) (VNum upperDecimal)"
    by (simp add: lowerDecimal_value upperDecimal_value)
  show "roundToMaxPrecision lowerDecimal = lowerDecimal"
    by (rule roundToMaxPrecision_of_decimals)
  show "roundToMaxPrecision upperDecimal = lowerDecimal"
    by (rule roundToMaxPrecision_of_decimals)
  show eq: "deepEqual (VNum lowerDecimal) (VNum upperDecimal)"
    by (simp add: deepEqual_numbers roundToMaxPrecision_of_decimals)
      (simp add: lowerDecimal_value)
  show "equal (VArr [VNum lowerDecimal]) (VArr [VNum upperDecimal]) = VBool True"
    using eq by (simp add: equal_def equality_def isEmpty_def deepEqual_singletons)
  show "deepEqual (VNum (Fin (2 ^ 1001))) (VNum (Fin (2 ^ 1002)))"
    unfolding deepEqual_numbers roundToMaxPrecision_overflow by simp
qed

subsection \<open>Conversion to boolean\<close>

lemma toBoolean_listed:
  "toBoolean [VBool b] = Inr (VBool b) \<and>
   toBoolean [VNum (Fin 1)] = Inr (VBool True) \<and>
   toBoolean [VNum (Fin 0)] = Inr (VBool False) \<and>
   toBoolean [VBigInt 1] = Inr (VBool True) \<and>
   toBoolean [VBigInt 0] = Inr (VBool False) \<and>
   toBoolean [VNum (Fin 2)] = Inr VUndefined \<and>
   toBoolean [VStr ''Yes''] = Inr (VBool True) \<and>
   toBoolean [VStr ''0.0''] = Inr (VBool False) \<and>
   toBoolean [VStr ''maybe''] = Inr VUndefined \<and>
   toBoolean [] = Inr VUndefined \<and>
   toBoolean [VBool True, VBool True] =
     Inl (Error ''toBoolean: The input collection contains multiple items'')"
  by (simp add: toBoolean_def checkSingleton_def valData_def toLowerCase_def
      toLowerCaseChar_def propertyIsTruthy_def trueStrings_def falseStrings_def
      objectKeys_def getProp_def objectPrototypeKeys_def)

text \<open>
  C8. \<open>toBoolean\<close> converts the listed values as claimed (lemma \<open>toBoolean_listed\<close>
  has one of each kind), but not every other string yields the empty result: the
  string \<open>constructor\<close>, in any letter case, and the string \<open>__proto__\<close> are
  converted to \<^verbatim>\<open>true\<close>, because \<^verbatim>\<open>trueStrings[lowerCaseValue]\<close> then reads a property
  that the table inherits from \<^verbatim>\<open>Object.prototype\<close>.
\<close>

theorem toBoolean_inherited_property:
  "toBoolean [VStr ''constructor''] = Inr (VBool True) \<and>
   toBoolean [VStr ''Constructor''] = Inr (VBool True) \<and>
   toBoolean [VStr ''__proto__''] = Inr (VBool True)"
  by (simp add: toBoolean_def checkSingleton_def valData_def toLowerCase_def
      toLowerCaseChar_def propertyIsTruthy_def trueStrings_def falseStrings_def
      objectKeys_def getProp_def objectPrototypeKeys_def)

subsection \<open>The macro iif\<close>

lemma isTrue_collection: "isTrue (VArr xs) = (xs = [VBool True])"
proof (cases xs)
  case Nil
  then show ?thesis by (simp add: isTrue_def)
next
  case (Cons x rest)
  have "getProp (VArr (x # rest)) ''0'' = x"
    by (simp add: getProp_def natToString.simps upt_rec)
  moreover have "strict_equals x (VBool True) = (x = VBool True)"
    by (cases x) auto
  ultimately show ?thesis using Cons by (auto simp: isTrue_def valData_def)
qed

text \<open>
  C9. \<open>iifMacro\<close> is lazy. When the condition closure returns the value \<open>c\<close> and
  leaves the state \<open>w1\<close>, the result and the final state of \<open>iifMacro\<close> are those of
  one closure applied to the input in \<open>w1\<close>: of \<open>ok\<close> when \<open>c\<close> is true, which for a
  collection means that it is the singleton \<open>true\<close>, and of \<open>fail\<close> otherwise. The
  other closure is not applied: putting any closure \<open>fail'\<close>, respectively \<open>ok'\<close>,
  in its place changes neither the result nor the final state, so neither its
  value nor its effect on the state nor an error it would throw is part of the
  evaluation. Without a \<open>fail\<close> closure and with a condition that is not true, the
  result is the empty collection and the state is \<open>w1\<close>.
\<close>

theorem iif_is_lazy:
  assumes "cond data w = (Return c, w1)"
  shows "iifMacro data cond ok fail w =
           (if isTrue c then ok data w1
            else case fail of
                Some f \<Rightarrow> f data w1
              | None \<Rightarrow> (Return (VArr []), w1)) \<and>
         (isTrue c \<longrightarrow> iifMacro data cond ok fail w = iifMacro data cond ok fail' w) \<and>
         (\<not> isTrue c \<longrightarrow> iifMacro data cond ok fail w = iifMacro data cond ok' fail w) \<and>
         (\<forall>xs. isTrue (VArr xs) = (xs = [VBool True]))"
  using assms by (simp add: iifMacro_def iifMacroSync_def isTrue_collection)

text \<open>
  Two evaluations in which each closure appends its name to a log and the branch not
  chosen would throw: \<open>iif({}, <throws>, 'b')\<close> and \<open>iif(true, 'a', <throws>)\<close>.
\<close>

theorem iif_is_lazy_witness:
  "iifMacro VNull
     (\<lambda>d w. (Return (VArr []), w @ [''cond'']))
     (\<lambda>d w. (Throw (Error ''then''), w @ [''then'']))
     (Some (\<lambda>d w. (Return (VArr [VStr ''b'']), w @ [''else''])))
     [] = (Return (VArr [VStr ''b'']), [''cond'', ''else'']) \<and>
   iifMacro VNull
     (\<lambda>d w. (Return (VArr [VBool True]), w @ [''cond'']))
     (\<lambda>d w. (Return (VArr [VStr ''a'']), w @ [''then'']))
     (Some (\<lambda>d w. (Throw (Error ''else''), w @ [''else''])))
     [] = (Return (VArr [VStr ''a'']), [''cond'', ''then''])"
proof -
  note r1 = iif_is_lazy [where cond = "\<lambda>d w. (Return (VArr []), w @ [''cond''])"
      and data = VNull and w = "[]" and c = "VArr []" and ?w1.0 = "[''cond'']"
      and ok = "\<lambda>d w. (Throw (Error ''then''), w @ [''then''])"
      and fail = "Some (\<lambda>d w. (Return (VArr [VStr ''b'']), w @ [''else'']))",
      THEN conjunct1]
  note r2 = iif_is_lazy [where cond = "\<lambda>d w. (Return (VArr [VBool True]), w @ [''cond''])"
      and data = VNull and w = "[]" and c = "VArr [VBool True]" and ?w1.0 = "[''cond'']"
      and ok = "\<lambda>d w. (Return (VArr [VStr ''a'']), w @ [''then''])"
      and fail = "Some (\<lambda>d w. (Throw (Error ''else''), w @ [''else'']))",
      THEN conjunct1]
  show ?thesis using r1 r2 by (simp add: isTrue_collection)
qed

text \<open>
  When the condition is a promise that is fulfilled with \<open>c\<close>, the same choice is
  made once it is resolved, and the result is a promise for what the chosen closure
  gives; when the promise is rejected, no closure is applied.
\<close>

lemma iif_after_promise:
  assumes "cond data w = (Promise (Inr c), w1)"
  shows "iifMacro data cond ok fail w =
           (settle (fst (iifMacroSync data c ok fail w1)),
            snd (iifMacroSync data c ok fail w1))"
  using assms by (simp add: iifMacro_def split: prod.splits)

lemma iif_after_rejection:
  assumes "cond data w = (Promise (Inl e), w1)"
  shows "iifMacro data cond ok fail w = (Promise (Inl e), w1)"
  using assms by (simp add: iifMacro_def)

subsection \<open>Division by zero\<close>

lemma div_by_zero_is_empty:
  "div_op [VNum x] [VNum (Fin 0)] = Inr (VArr []) \<and>
   div_op [VNum x] [VBigInt 0] = Inr (VArr []) \<and>
   div_op [VBigInt i] [VNum (Fin 0)] = Inr (VArr []) \<and>
   div_op [VBigInt i] [VBigInt 0] = Inr (VArr []) \<and>
   intdiv v (VNum (Fin 0)) = Inr (VArr []) \<and>
   intdiv v (VBigInt 0) = Inr (VArr []) \<and>
   mod_op v (VNum (Fin 0)) = Inr (VArr [])"
  by (simp add: div_op_def intdiv_def mod_op_def valDataConverted_def looseNull_def)

text \<open>
  C10. \<open>div\<close> and \<open>intdiv\<close> return the empty collection for a zero divisor of either
  kind (lemma \<open>div_by_zero_is_empty\<close>), and so does \<open>mod\<close> for the number \<open>0\<close>. For
  the bigint \<open>0n\<close> \<open>mod\<close> does not: its guard is \<^verbatim>\<open>y === 0\<close> only, which a bigint never
  satisfies, so \<open>5n mod 0n\<close> throws the \<^verbatim>\<open>RangeError\<close> of the bigint remainder and
  \<open>5 mod 0n\<close> is \<^verbatim>\<open>5 % 0\<close>, that is \<^verbatim>\<open>NaN\<close>.
\<close>

theorem mod_by_bigint_zero:
  "mod_op (VBigInt 5) (VBigInt 0) = Inl RangeError \<and>
   mod_op (VNum (Fin 5)) (VBigInt 0) = Inr (VNum NaN) \<and>
   intdiv (VBigInt 5) (VBigInt 0) = Inr (VArr [])"
  by (simp add: mod_op_def intdiv_def bigint_rem_def Number_of_bigint_def toDouble_zero)

end
